theory Spec2Isabelle
  imports Complex_Main "HOL-Library.Log_Nat"
begin

section \<open>The adaptive large neighborhood search heuristic (heur\_lns.c)\<close>

text \<open>
  A shallow embedding of \<^verbatim>\<open>src/scip/heur_lns.c\<close>. Conventions:
  \<^item> \<^verbatim>\<open>SCIP_Real\<close> is \<^typ>\<open>real\<close>; \<^verbatim>\<open>int\<close> and \<^verbatim>\<open>SCIP_Longint\<close> are \<^typ>\<open>int\<close>
    (signed overflow is undefined in C, so the counters are read in the range where the
    C arithmetic is exact); a cast from \<^verbatim>\<open>SCIP_Real\<close> to an integer type truncates
    towards zero.
  \<^item> In \<^verbatim>\<open>determineLimits\<close> a product of two \<^verbatim>\<open>SCIP_Real\<close> is cast to an integer and
    compared with a bound, so there the operations on \<^verbatim>\<open>SCIP_Real\<close> are the machine's
    (each rounds its result to a double) and an operation on \<^verbatim>\<open>SCIP_Longint\<close> that leaves
    the 64 bits is a failure.
  \<^item> A C array is a list; a pointer to a variable is the variable's identity.
  \<^item> A function that can fail returns a sum: \<open>Inl\<close> is a failure (a return code other
    than \<^verbatim>\<open>SCIP_OKAY\<close>, an abort, a \<^verbatim>\<open>NULL\<close> pointer that is followed, or an array access
    out of range), \<open>Inr\<close> carries the state and the output parameters after \<^verbatim>\<open>SCIP_OKAY\<close>.
    Memory allocation is taken to succeed.
  \<^item> \<^verbatim>\<open>assert\<close> is compiled out (\<^verbatim>\<open>NDEBUG\<close>); an assertion is never a branch of the model.
  \<^item> State is passed explicitly: a function takes the objects its pointers lead to and
    returns the ones it may have written.
\<close>

subsection \<open>Statistics of a neighborhood\<close>

record NH_Stats =
  usednodes :: int
  lpiterations :: int
  totalgapclosed :: real
  nruns :: int
  nrunsbestsol :: int
  nsolsfound :: int
  nbestsolsfound :: int
  presolrounds :: int
  totalnbinfixings :: int
  totalnintfixings :: int
  totalnimplintfixings :: int
  totalncontfixings :: int
  totalnfixings :: int

text \<open>\<^verbatim>\<open>neighborhoodStatsReset\<close>: twelve assignments, in the order of the source.\<close>

definition neighborhoodStatsReset :: "NH_Stats \<Rightarrow> NH_Stats" where
  "neighborhoodStatsReset stats =
     stats\<lparr>lpiterations := 0,
           nbestsolsfound := 0,
           nruns := 0,
           nrunsbestsol := 0,
           nsolsfound := 0,
           presolrounds := 0,
           totalgapclosed := 0,
           totalnbinfixings := 0,
           totalncontfixings := 0,
           totalnimplintfixings := 0,
           totalnfixings := 0,
           usednodes := 0\<rparr>"

subsection \<open>The fixing rate of a neighborhood\<close>

record NH_FixingRate =
  minfixingrate :: real
  targetfixingrate :: real
  maxfixingrate :: real

definition fixingRateReset :: "NH_FixingRate \<Rightarrow> NH_FixingRate" where
  "fixingRateReset fixingrate =
     fixingrate\<lparr>minfixingrate := 0, maxfixingrate := 1 / 2, targetfixingrate := 1 / 4\<rparr>"

subsection \<open>Failures\<close>

datatype SCIP_RETCODE =
    SCIP_ERROR
  | SCIP_NOMEMORY
  | SCIP_PARAMETERUNKNOWN
  | SCIP_INVALIDDATA

datatype failure =
    Retcode SCIP_RETCODE
  | Aborted
  | OutOfRange
  | Overflow

text \<open>\<^verbatim>\<open>SCIP_CALL( f )\<close>: go on with the result of \<open>f\<close>, or return its failure.\<close>

definition SCIP_CALL :: "failure + 'a \<Rightarrow> ('a \<Rightarrow> failure + 'b) \<Rightarrow> failure + 'b" where
  "SCIP_CALL m f = (case m of Inl e \<Rightarrow> Inl e | Inr x \<Rightarrow> f x)"

subsection \<open>The Exp.3 bandit algorithm\<close>

record 'r EXPTHREE =
  nactions :: int
  ndraws :: int
  probabilities :: "real list"
  cumulativegain :: "real list"
  exp3rng :: 'r
  initseed :: nat

text \<open>
  \<^verbatim>\<open>expThreeUpdate\<close>. The locals \<open>eta\<close> and \<open>factor\<close> are computed and never read
  (\<^verbatim>\<open>logf\<close> is the natural logarithm); the only store is
  \<^verbatim>\<open>exp3->cumulativegain[i] += gain\<close>. An index outside the array is a failure.
\<close>

definition expThreeUpdate :: "'r EXPTHREE \<Rightarrow> real \<Rightarrow> int \<Rightarrow> failure + 'r EXPTHREE" where
  "expThreeUpdate exp3 gain i =
     (let eta = sqrt (1 / real_of_int (ndraws exp3));
          factor = ln (real_of_int (nactions exp3));
          factor = factor / real_of_int (nactions exp3);
          factor = sqrt factor
      in if 0 \<le> i \<and> nat i < length (cumulativegain exp3)
         then Inr (exp3\<lparr>cumulativegain :=
                     (cumulativegain exp3)[nat i := cumulativegain exp3 ! nat i + gain]\<rparr>)
         else Inl OutOfRange)"

subsection \<open>The solver instance as this file observes it\<close>

text \<open>
  The SCIP library is outside \<^verbatim>\<open>heur_lns.c\<close>. A solver instance is the record of what
  the file reads from it through the library's query functions and writes to it through
  the library's setters; the field of a query carries the query's name. The numerical
  predicates (\<^verbatim>\<open>SCIPisInfinity\<close>, \<^verbatim>\<open>SCIPisIntegral\<close>, \<^verbatim>\<open>SCIPisEQ\<close>) and the tolerance
  \<^verbatim>\<open>SCIPsumepsilon\<close> belong to the instance and are parameters of the model.
\<close>

type_synonym SCIP_VAR = nat

datatype SCIP_LPSOLSTAT =
    SCIP_LPSOLSTAT_NOTSOLVED
  | SCIP_LPSOLSTAT_OPTIMAL
  | SCIP_LPSOLSTAT_INFEASIBLE
  | SCIP_LPSOLSTAT_UNBOUNDEDRAY

datatype SCIP_SOLORIGIN =
    SCIP_SOLORIGIN_ORIGINAL
  | SCIP_SOLORIGIN_ZERO
  | SCIP_SOLORIGIN_LPSOL

record SCIP_SOL =
  SCIPsolGetOrigin :: SCIP_SOLORIGIN
  solvals :: "SCIP_VAR \<Rightarrow> real"

datatype SCIP_PARAMSETTING =
    SCIP_PARAMSETTING_DEFAULT
  | SCIP_PARAMSETTING_FAST
  | SCIP_PARAMSETTING_OFF

datatype paramval = BoolParam bool | IntParam int | LongintParam int | RealParam real

record SCIP =
  vars :: "SCIP_VAR list"
  nbinvars :: int
  nintvars :: int
  SCIPhasCurrentNodeLP :: bool
  SCIPgetLPSolstat :: SCIP_LPSOLSTAT
  lpsolvals :: "SCIP_VAR \<Rightarrow> real"
  SCIPgetBestSol :: "SCIP_SOL option"
  SCIPgetNSolsFound :: int
  SCIPgetNBestSolsFound :: int
  SCIPgetUpperbound :: real
  SCIPgetLowerbound :: real
  SCIPgetSolvingTime :: real
  SCIPgetMemUsed :: int
  SCIPgetMemExternEstim :: int
  SCIPgetNNodes :: int
  SCIPgetNLPs :: int
  SCIPgetNLPIterations :: int
  SCIPisInfinity :: "real \<Rightarrow> bool"
  SCIPisIntegral :: "real \<Rightarrow> bool"
  SCIPisEQ :: "real \<Rightarrow> real \<Rightarrow> bool"
  SCIPsumepsilon :: real
  params :: "string \<rightharpoonup> paramval"
  fixedparams :: "string list"
  nodesels :: "string list"
  branchrules :: "string list"
  conshdlrs :: "string list"
  subscipsoff :: bool
  separating :: SCIP_PARAMSETTING
  presolving :: SCIP_PARAMSETTING
  objlimit :: "real option"
  interrupted :: bool

text \<open>\<^verbatim>\<open>SCIPgetVarsData\<close> hands out the instance's own variable array and its length.\<close>

definition SCIPgetNVars :: "SCIP \<Rightarrow> int" where
  "SCIPgetNVars scip = int (length (vars scip))"

text \<open>\<^verbatim>\<open>SCIPgetSolVal(scip, sol, var)\<close>: the LP solution when \<open>sol\<close> is \<^verbatim>\<open>NULL\<close>.\<close>

definition SCIPgetSolVal :: "SCIP \<Rightarrow> SCIP_SOL option \<Rightarrow> SCIP_VAR \<Rightarrow> real" where
  "SCIPgetSolVal scip sol var =
     (case sol of None \<Rightarrow> lpsolvals scip var | Some s \<Rightarrow> solvals s var)"

text \<open>
  The parameter table: reading or writing a name the instance does not have fails with
  \<^verbatim>\<open>SCIP_PARAMETERUNKNOWN\<close>.
\<close>

definition SCIPgetRealParam :: "SCIP \<Rightarrow> string \<Rightarrow> failure + real" where
  "SCIPgetRealParam scip pname =
     (case params scip pname of
        Some (RealParam r) \<Rightarrow> Inr r
      | _ \<Rightarrow> Inl (Retcode SCIP_PARAMETERUNKNOWN))"

definition SCIPsetParam :: "SCIP \<Rightarrow> string \<Rightarrow> paramval \<Rightarrow> failure + SCIP" where
  "SCIPsetParam scip pname v =
     (case params scip pname of
        None \<Rightarrow> Inl (Retcode SCIP_PARAMETERUNKNOWN)
      | Some _ \<Rightarrow> Inr (scip\<lparr>params := (params scip)(pname \<mapsto> v)\<rparr>))"

definition SCIPisParamFixed :: "SCIP \<Rightarrow> string \<Rightarrow> bool" where
  "SCIPisParamFixed scip pname = (pname \<in> set (fixedparams scip))"

definition SCIPsetObjlimit :: "SCIP \<Rightarrow> real \<Rightarrow> SCIP" where
  "SCIPsetObjlimit scip cutoff = scip\<lparr>objlimit := Some cutoff\<rparr>"

definition SCIPinterruptSolve :: "SCIP \<Rightarrow> SCIP" where
  "SCIPinterruptSolve scip = scip\<lparr>interrupted := True\<rparr>"

text \<open>The C cast of a \<^verbatim>\<open>SCIP_Real\<close> to \<^verbatim>\<open>int\<close> or \<^verbatim>\<open>SCIP_Longint\<close>: towards zero.\<close>

definition real_to_int_cast :: "real \<Rightarrow> int" where
  "real_to_int_cast x = (if 0 \<le> x then \<lfloor>x\<rfloor> else \<lceil>x\<rceil>)"

subsection \<open>Random numbers\<close>

text \<open>
  The generator is the library's. Its state is a type parameter, and its two draws
  (\<^verbatim>\<open>SCIPrandomGetReal(rng, min, max)\<close>, \<^verbatim>\<open>SCIPrandomGetInt(rng, min, max)\<close>) are passed in: each
  returns the drawn number and the generator's next state.
\<close>

record 'r RANDOM =
  SCIPrandomGetReal :: "'r \<Rightarrow> real \<Rightarrow> real \<Rightarrow> real \<times> 'r"
  SCIPrandomGetInt :: "'r \<Rightarrow> int \<Rightarrow> int \<Rightarrow> int \<times> 'r"

text \<open>The library's contract for an integer draw: it lies between the two bounds.\<close>

definition randomGetInt_in_range :: "'r RANDOM \<Rightarrow> bool" where
  "randomGetInt_in_range R =
     (\<forall>rng lo hi. lo \<le> hi \<longrightarrow>
        lo \<le> fst (SCIPrandomGetInt R rng lo hi) \<and> fst (SCIPrandomGetInt R rng lo hi) \<le> hi)"

subsection \<open>The epsilon greedy selector\<close>

text \<open>
  The selector's two callbacks take the selector and read its user pointer; they are passed
  to \<^verbatim>\<open>epsGreedySelect\<close> already bound to both: \<open>epsnchoices\<close> is what
  \<^verbatim>\<open>epsgreedy->epsnchoices(scip, epsgreedy)\<close> returns and \<open>epsreward j\<close> what
  \<^verbatim>\<open>epsgreedy->epsreward(scip, epsgreedy, j)\<close> returns.
\<close>

record 'r EpsGreedy =
  eps :: real
  rng :: 'r

text \<open>
  The loop \<^verbatim>\<open>for( j = 1; j < nchoices; ++j )\<close> with its two variables \<open>*i\<close> and
  \<open>maxreward\<close>.
\<close>

function epsGreedyLoop :: "(int \<Rightarrow> real) \<Rightarrow> int \<Rightarrow> int \<Rightarrow> int \<Rightarrow> real \<Rightarrow> int \<times> real" where
  "epsGreedyLoop epsreward nchoices j i maxreward =
     (if j < nchoices
      then (if maxreward < epsreward j
            then epsGreedyLoop epsreward nchoices (j + 1) j (epsreward j)
            else epsGreedyLoop epsreward nchoices (j + 1) i maxreward)
      else (i, maxreward))"
  by pat_completeness auto
termination
  by (relation "measure (\<lambda>(epsreward, nchoices, j, i, maxreward). nat (nchoices - j))") auto

declare epsGreedyLoop.simps [simp del]

text \<open>\<^verbatim>\<open>epsGreedySelect\<close> always returns \<^verbatim>\<open>SCIP_OKAY\<close>; the result is \<open>*i\<close> and the selector.\<close>

definition epsGreedySelect ::
  "'r RANDOM \<Rightarrow> int \<Rightarrow> (int \<Rightarrow> real) \<Rightarrow> 'r EpsGreedy \<Rightarrow> int \<times> 'r EpsGreedy" where
  "epsGreedySelect R epsnchoices epsreward epsgreedy =
     (let nchoices = epsnchoices
      in if nchoices = 0 then (- 1, epsgreedy)
         else
           (let (rand, rng1) = SCIPrandomGetReal R (rng epsgreedy) 0 1
            in if rand \<le> eps epsgreedy
               then (fst (epsGreedyLoop epsreward nchoices 1 0 (epsreward 0)),
                     epsgreedy\<lparr>rng := rng1\<rparr>)
               else
                 (let (i, rng2) = SCIPrandomGetInt R rng1 0 (nchoices - 1)
                  in (i, epsgreedy\<lparr>rng := rng2\<rparr>))))"

subsection \<open>Neighborhoods and their variable fixing callbacks\<close>

text \<open>
  The output parameters of a variable fixing callback: the two buffers the caller owns,
  the number of fixings and the success flag.
\<close>

record fixbuf =
  varbuf :: "SCIP_VAR list"
  valbuf :: "real list"
  nfixings :: int
  success :: bool

text \<open>\<^verbatim>\<open>varbuf[k] = var; valbuf[k] = val;\<close> inside the two buffers, a failure outside.\<close>

definition storeFixing :: "fixbuf \<Rightarrow> int \<Rightarrow> SCIP_VAR \<Rightarrow> real \<Rightarrow> failure + fixbuf" where
  "storeFixing buf k var val =
     (if 0 \<le> k \<and> nat k < length (varbuf buf) \<and> nat k < length (valbuf buf)
      then Inr (buf\<lparr>varbuf := (varbuf buf)[nat k := var], valbuf := (valbuf buf)[nat k := val]\<rparr>)
      else Inl OutOfRange)"

record 'r DATA_MUTATION =
  mutationrng :: 'r

text \<open>
  A callback \<^verbatim>\<open>DECL_VARFIXINGS\<close> is given the solver instance, the neighborhood and the four
  output parameters. Of the neighborhood the callbacks of this file read the fixing rate and
  the data pointer, and write the generator behind the data pointer: the model passes these
  two, and takes back the instance, the data and the output parameters.
\<close>

type_synonym 'r DECL_VARFIXINGS =
  "SCIP \<Rightarrow> NH_FixingRate \<Rightarrow> 'r DATA_MUTATION option \<Rightarrow> fixbuf
     \<Rightarrow> failure + (SCIP \<times> 'r DATA_MUTATION option \<times> fixbuf)"

text \<open>
  The other four callbacks of a neighborhood are stored and, in \<^verbatim>\<open>heurExecLns\<close>, not
  called; the record keeps which function of the file each pointer holds.
\<close>

datatype callback_id = changeSubscipRens | nhInitMutation | nhExitMutation

record 'r Nh =
  name :: string
  fixingrate :: NH_FixingRate
  stats :: NH_Stats
  varfixings :: "'r DECL_VARFIXINGS option"
  changesubscip :: "callback_id option"
  setupsubscip :: "callback_id option"
  nhinit :: "callback_id option"
  nhexit :: "callback_id option"
  active :: bool
  data_mutation :: "'r DATA_MUTATION option"

text \<open>
  The loop of \<^verbatim>\<open>varFixingsRens\<close> over the binary and integer variables, \<open>n\<close> being
  \<open>nbinvars + nintvars\<close>.
\<close>

function varFixingsRensLoop :: "SCIP \<Rightarrow> int \<Rightarrow> int \<Rightarrow> fixbuf \<Rightarrow> failure + fixbuf" where
  "varFixingsRensLoop scip n i buf =
     (if i < n
      then (if 0 \<le> i \<and> nat i < length (vars scip)
            then (if SCIPisIntegral scip (SCIPgetSolVal scip None (vars scip ! nat i))
                  then (case storeFixing buf (nfixings buf) (vars scip ! nat i)
                               (SCIPgetSolVal scip None (vars scip ! nat i)) of
                          Inl e \<Rightarrow> Inl e
                        | Inr buf1 \<Rightarrow>
                            varFixingsRensLoop scip n (i + 1)
                              (buf1\<lparr>nfixings := nfixings buf1 + 1\<rparr>))
                  else varFixingsRensLoop scip n (i + 1) buf)
            else Inl OutOfRange)
      else Inr buf)"
  by pat_completeness auto
termination
  by (relation "measure (\<lambda>(scip, n, i, buf). nat (n - i))") auto

declare varFixingsRensLoop.simps [simp del]

definition varFixingsRens :: "'r DECL_VARFIXINGS" where
  "varFixingsRens scip rate mdata buf =
     (if \<not> SCIPhasCurrentNodeLP scip then Inr (scip, mdata, buf)
      else if SCIPgetLPSolstat scip \<noteq> SCIP_LPSOLSTAT_OPTIMAL then Inr (scip, mdata, buf)
      else if nbinvars scip + nintvars scip = 0 then Inr (scip, mdata, buf)
      else SCIP_CALL (varFixingsRensLoop scip (nbinvars scip + nintvars scip) 0 buf)
             (\<lambda>buf1. Inr (scip, mdata, buf1\<lparr>success := True\<rparr>)))"

text \<open>The loop of \<^verbatim>\<open>varFixingsRins\<close>, with the incumbent.\<close>

function varFixingsRinsLoop ::
  "SCIP \<Rightarrow> SCIP_SOL \<Rightarrow> int \<Rightarrow> int \<Rightarrow> fixbuf \<Rightarrow> failure + fixbuf" where
  "varFixingsRinsLoop scip incumbent n i buf =
     (if i < n
      then (if 0 \<le> i \<and> nat i < length (vars scip)
            then (if SCIPisEQ scip (SCIPgetSolVal scip None (vars scip ! nat i))
                       (SCIPgetSolVal scip (Some incumbent) (vars scip ! nat i))
                  then (case storeFixing buf (nfixings buf) (vars scip ! nat i)
                               (SCIPgetSolVal scip (Some incumbent) (vars scip ! nat i)) of
                          Inl e \<Rightarrow> Inl e
                        | Inr buf1 \<Rightarrow>
                            varFixingsRinsLoop scip incumbent n (i + 1)
                              (buf1\<lparr>nfixings := nfixings buf1 + 1\<rparr>))
                  else varFixingsRinsLoop scip incumbent n (i + 1) buf)
            else Inl OutOfRange)
      else Inr buf)"
  by pat_completeness auto
termination
  by (relation "measure (\<lambda>(scip, incumbent, n, i, buf). nat (n - i))") auto

declare varFixingsRinsLoop.simps [simp del]

definition varFixingsRins :: "'r DECL_VARFIXINGS" where
  "varFixingsRins scip rate mdata buf =
     (if \<not> SCIPhasCurrentNodeLP scip then Inr (scip, mdata, buf)
      else if SCIPgetLPSolstat scip \<noteq> SCIP_LPSOLSTAT_OPTIMAL then Inr (scip, mdata, buf)
      else (case SCIPgetBestSol scip of
              None \<Rightarrow> Inr (scip, mdata, buf)
            | Some incumbent \<Rightarrow>
                if SCIPsolGetOrigin incumbent = SCIP_SOLORIGIN_ORIGINAL
                then Inr (scip, mdata, buf)
                else if nbinvars scip + nintvars scip = 0 then Inr (scip, mdata, buf)
                else SCIP_CALL
                       (varFixingsRinsLoop scip incumbent (nbinvars scip + nintvars scip) 0 buf)
                       (\<lambda>buf1. Inr (scip, mdata, buf1\<lparr>success := True\<rparr>))))"

text \<open>
  \<^verbatim>\<open>SCIPswapPointers(&vars[i], &vars[rand])\<close> on the array \<open>vars\<close>; both positions must be
  inside it.
\<close>

definition swapPointers :: "SCIP_VAR list \<Rightarrow> int \<Rightarrow> int \<Rightarrow> failure + SCIP_VAR list" where
  "swapPointers xs i j =
     (if 0 \<le> i \<and> nat i < length xs \<and> 0 \<le> j \<and> nat j < length xs
      then Inr (xs[nat i := xs ! nat j, nat j := xs ! nat i])
      else Inl OutOfRange)"

text \<open>
  The loop of \<^verbatim>\<open>varFixingsMutation\<close>, for \<open>i\<close> below \<open>ntargetfixings\<close>. The array it swaps in
  is \<open>vars\<close>, which \<^verbatim>\<open>SCIPgetVarsData\<close> set to the instance's own variable array; the
  duplicate \<open>varscpy\<close> is allocated, never read or written, and freed. The loop state is the
  instance (with its array), the generator and the output buffers.
\<close>

function varFixingsMutationLoop ::
  "'r RANDOM \<Rightarrow> SCIP_SOL \<Rightarrow> int \<Rightarrow> int \<Rightarrow> int \<Rightarrow> SCIP \<Rightarrow> 'r \<Rightarrow> fixbuf
     \<Rightarrow> failure + (SCIP \<times> 'r \<times> fixbuf)" where
  "varFixingsMutationLoop R incumbentsol nbinintvars ntargetfixings i scip g buf =
     (if i < ntargetfixings
      then (case (if fst (SCIPrandomGetInt R g i (nbinintvars - 1)) > i
                  then swapPointers (vars scip) i (fst (SCIPrandomGetInt R g i (nbinintvars - 1)))
                  else Inr (vars scip)) of
              Inl e \<Rightarrow> Inl e
            | Inr vars1 \<Rightarrow>
                if 0 \<le> i \<and> nat i < length vars1
                then (case storeFixing buf i (vars1 ! nat i)
                             (SCIPgetSolVal scip (Some incumbentsol) (vars1 ! nat i)) of
                        Inl e \<Rightarrow> Inl e
                      | Inr buf1 \<Rightarrow>
                          varFixingsMutationLoop R incumbentsol nbinintvars ntargetfixings (i + 1)
                            (scip\<lparr>vars := vars1\<rparr>)
                            (snd (SCIPrandomGetInt R g i (nbinintvars - 1))) buf1)
                else Inl OutOfRange)
      else Inr (scip, g, buf))"
  by pat_completeness auto
termination
  by (relation "measure (\<lambda>(R, incumbentsol, nbinintvars, ntargetfixings, i, scip, g, buf).
        nat (ntargetfixings - i))") auto

declare varFixingsMutationLoop.simps [simp del]

text \<open>
  \<^verbatim>\<open>varFixingsMutation\<close>. The data pointer must not be \<^verbatim>\<open>NULL\<close>. No path assigns
  \<open>*success\<close>.
\<close>

definition varFixingsMutation :: "'r RANDOM \<Rightarrow> 'r DECL_VARFIXINGS" where
  "varFixingsMutation R scip rate mdata buf =
     (case mdata of
        None \<Rightarrow> Inl OutOfRange
      | Some d \<Rightarrow>
          if nbinvars scip + nintvars scip = 0 then Inr (scip, mdata, buf)
          else (case SCIPgetBestSol scip of
                  None \<Rightarrow> Inr (scip, mdata, buf)
                | Some incumbentsol \<Rightarrow>
                    (let ntargetfixings =
                           real_to_int_cast (targetfixingrate rate * real_of_int (SCIPgetNVars scip)) + 1
                     in if nbinvars scip + nintvars scip \<le> ntargetfixings
                        then Inr (scip, mdata, buf)
                        else SCIP_CALL
                               (varFixingsMutationLoop R incumbentsol (nbinvars scip + nintvars scip)
                                  ntargetfixings 0 scip (mutationrng d) buf)
                               (\<lambda>(scip1, g1, buf1).
                                  Inr (scip1, Some (d\<lparr>mutationrng := g1\<rparr>),
                                       buf1\<lparr>nfixings := ntargetfixings\<rparr>)))))"

text \<open>
  \<^verbatim>\<open>neighborhoodFixVariables\<close>: the result is the instance and the neighborhood after the
  callback, and the output parameters. The last statement of the source is
  \<^verbatim>\<open>if( *success && (*nfixings >= targetfixingrate * SCIPgetNVars(scip)) ) *success = TRUE;\<close>
\<close>

definition neighborhoodFixVariables ::
  "SCIP \<Rightarrow> 'r Nh \<Rightarrow> SCIP_VAR list \<Rightarrow> real list \<Rightarrow> failure + (SCIP \<times> 'r Nh \<times> fixbuf)" where
  "neighborhoodFixVariables scip neighborhood varbuf0 valbuf0 =
     (let buf0 = \<lparr>varbuf = varbuf0, valbuf = valbuf0, nfixings = 0, success = False\<rparr>
      in SCIP_CALL
           (case varfixings neighborhood of
              Some cb \<Rightarrow> cb scip (fixingrate neighborhood) (data_mutation neighborhood) buf0
            | None \<Rightarrow> Inr (scip, data_mutation neighborhood, buf0\<lparr>success := True\<rparr>))
           (\<lambda>(scip1, mdata1, buf1).
              Inr (scip1, neighborhood\<lparr>data_mutation := mdata1\<rparr>,
                   (if success buf1
                       \<and> real_of_int (nfixings buf1)
                            \<ge> targetfixingrate (fixingrate neighborhood) * real_of_int (SCIPgetNVars scip1)
                    then buf1\<lparr>success := True\<rparr>
                    else buf1))))"

text \<open>\<^verbatim>\<open>initNeighborhoodStatsRun\<close> and \<^verbatim>\<open>updateNeighborhoodStats\<close>.\<close>

definition DEFAULT_BESTSOLWEIGHT :: int where
  "DEFAULT_BESTSOLWEIGHT = 3"

definition initNeighborhoodStatsRun :: "SCIP \<Rightarrow> 'r Nh \<Rightarrow> 'r Nh" where
  "initNeighborhoodStatsRun scip neighborhood =
     neighborhood\<lparr>stats := (stats neighborhood)
       \<lparr>nbestsolsfound := nbestsolsfound (stats neighborhood) - SCIPgetNBestSolsFound scip,
        nsolsfound := nsolsfound (stats neighborhood) - SCIPgetNSolsFound scip\<rparr>\<rparr>"

definition updateNeighborhoodStats :: "SCIP \<Rightarrow> 'r Nh \<Rightarrow> SCIP \<Rightarrow> 'r Nh" where
  "updateNeighborhoodStats scip neighborhood subscip =
     neighborhood\<lparr>stats := (stats neighborhood)
       \<lparr>lpiterations := lpiterations (stats neighborhood) + SCIPgetNLPIterations subscip,
        nbestsolsfound := nbestsolsfound (stats neighborhood) + SCIPgetNBestSolsFound scip,
        nsolsfound := nsolsfound (stats neighborhood) + SCIPgetNSolsFound scip,
        nrunsbestsol :=
          (if SCIPgetNBestSolsFound subscip > 0
           then nrunsbestsol (stats neighborhood) + DEFAULT_BESTSOLWEIGHT
           else if SCIPgetNSolsFound subscip > 0
           then nrunsbestsol (stats neighborhood) + 1
           else nrunsbestsol (stats neighborhood)),
        usednodes := usednodes (stats neighborhood) + SCIPgetNNodes subscip,
        nruns := nruns (stats neighborhood) + 1\<rparr>\<rparr>"

subsection \<open>Heuristic data, limits and the set-up of the sub-SCIP\<close>

definition DEFAULT_NODESQUOT :: real where "DEFAULT_NODESQUOT = 5 / 100"
definition DEFAULT_NODESOFFSET :: int where "DEFAULT_NODESOFFSET = 500"
definition DEFAULT_NSOLSLIM :: int where "DEFAULT_NSOLSLIM = 3"
definition DEFAULT_MINNODES :: int where "DEFAULT_MINNODES = 10"
definition DEFAULT_MINIMPROVE :: real where "DEFAULT_MINIMPROVE = 2 / 100"
definition DEFAULT_MAXNODES :: int where "DEFAULT_MAXNODES = 5000"
definition LPLIMFAC :: real where "LPLIMFAC = 2"
definition INT_MAX :: int where "INT_MAX = 2147483647"

record 'r SCIP_HeurData =
  neighborhoods :: "'r Nh list"
  banditalgo :: char
  epsgreedynh :: "'r EpsGreedy option"
  exp3 :: "'r EXPTHREE option"
  epsgreedyfilter :: "'r EpsGreedy option"
  nodesoffset :: int
  maxnodes :: int
  minnodes :: int
  heurusednodes :: int
  nodesquot :: real
  minimprove :: real
  lplimfac :: real
  nneighborhoods :: int
  nsolslim :: int

text \<open>
  The field \<open>heurusednodes\<close> is \<^verbatim>\<open>heurdata->usednodes\<close> (the statistics have a field of the
  same name). A heuristic is its data and the number of calls the solver counts for it.
\<close>

record 'r SCIP_HEUR =
  SCIPheurGetData :: "'r SCIP_HeurData"
  SCIPheurGetNCalls :: int

record SolveLimits =
  nodelimit :: int
  memorylimit :: real
  timelimit :: real

text \<open>
  The arithmetic of the machine on \<^verbatim>\<open>SCIP_Real\<close>, as \<^verbatim>\<open>determineLimits\<close> uses it: product,
  difference and quotient of two doubles, and the conversion of a \<^verbatim>\<open>SCIP_Longint\<close> to a
  double. Each returns the double the machine stores, not the exact number; the four are
  parameters of the model.
\<close>

record MACHINE =
  double_mul :: "real \<Rightarrow> real \<Rightarrow> real"
  double_sub :: "real \<Rightarrow> real \<Rightarrow> real"
  double_div :: "real \<Rightarrow> real \<Rightarrow> real"
  double_of_longint :: "int \<Rightarrow> real"

text \<open>
  Rounding keeps the sign: the double of an integer that is not negative is not negative,
  and neither is the product of two doubles that are not negative.
\<close>

definition machine_keeps_sign :: "MACHINE \<Rightarrow> bool" where
  "machine_keeps_sign M =
     ((\<forall>n. 0 \<le> n \<longrightarrow> 0 \<le> double_of_longint M n)
      \<and> (\<forall>x y. 0 \<le> x \<and> 0 \<le> y \<longrightarrow> 0 \<le> double_mul M x y))"

text \<open>
  A value of type \<^verbatim>\<open>SCIP_Longint\<close>: the result of a cast or of an operation that leaves
  the range of the type is undefined in C and a failure here.
\<close>

definition inLongint :: "int \<Rightarrow> bool" where
  "inLongint x = (- (2 ^ 63) \<le> x \<and> x < 2 ^ 63)"

definition longint :: "int \<Rightarrow> failure + int" where
  "longint x = (if inLongint x then Inr x else Inl Overflow)"

text \<open>
  \<^verbatim>\<open>determineLimits\<close> writes all three limits and, on three conditions, \<open>*runagain\<close>. The
  memory figures of the instance are in bytes, the limit in megabytes. The node limit is
  built in four steps, as in the source: the cast of the product, \<open>+= nodesoffset\<close>,
  \<open>-= usednodes\<close>, \<open>-= 100 * ncalls\<close>.
\<close>

definition determineLimits ::
  "MACHINE \<Rightarrow> SCIP \<Rightarrow> 'r SCIP_HEUR \<Rightarrow> bool \<Rightarrow> failure + (SolveLimits \<times> bool)" where
  "determineLimits M scip heur runagain0 =
     (let heurdata = SCIPheurGetData heur
      in SCIP_CALL (SCIPgetRealParam scip ''limits/time'') (\<lambda>timelimit0.
         let timelimit1 = (if \<not> SCIPisInfinity scip timelimit0
                           then double_sub M timelimit0 (SCIPgetSolvingTime scip)
                           else timelimit0)
         in SCIP_CALL (SCIPgetRealParam scip ''limits/memory'') (\<lambda>memorylimit0.
            let memorylimit1 =
                  (if \<not> SCIPisInfinity scip memorylimit0
                   then double_sub M
                          (double_sub M memorylimit0
                             (double_div M (double_of_longint M (SCIPgetMemUsed scip)) 1048576))
                          (double_div M (double_of_longint M (SCIPgetMemExternEstim scip)) 1048576)
                   else memorylimit0);
                runagain1 =
                  (if timelimit1 \<le> 0
                      \<or> memorylimit1
                           \<le> double_div M
                                (double_mul M 2 (double_of_longint M (SCIPgetMemExternEstim scip)))
                                1048576
                   then False else runagain0)
            in SCIP_CALL
                 (longint (real_to_int_cast
                    (double_mul M (nodesquot heurdata)
                       (double_of_longint M (SCIPgetNNodes scip))))) (\<lambda>nodelimit0.
               SCIP_CALL (longint (nodelimit0 + nodesoffset heurdata)) (\<lambda>nodelimit1.
               SCIP_CALL (longint (nodelimit1 - heurusednodes heurdata)) (\<lambda>nodelimit2.
               SCIP_CALL (longint (100 * SCIPheurGetNCalls heur)) (\<lambda>penalty.
               SCIP_CALL (longint (nodelimit2 - penalty)) (\<lambda>nodelimit3.
               let runagain2 = (if nodelimit3 < minnodes heurdata then False else runagain1)
               in Inr (\<lparr>nodelimit = nodelimit3, memorylimit = memorylimit1,
                        timelimit = timelimit1\<rparr>,
                       runagain2)))))))))"

definition setLimits :: "SCIP \<Rightarrow> SolveLimits \<Rightarrow> failure + SCIP" where
  "setLimits subscip solvelimits =
     SCIP_CALL (SCIPsetParam subscip ''limits/nodes'' (LongintParam (nodelimit solvelimits))) (\<lambda>s1.
     SCIP_CALL (SCIPsetParam s1 ''limits/time'' (RealParam (timelimit solvelimits))) (\<lambda>s2.
     SCIPsetParam s2 ''limits/memory'' (RealParam (memorylimit solvelimits))))"

text \<open>A parameter that is set only when a plugin exists and the parameter is not fixed.\<close>

definition setParamIfFree :: "bool \<Rightarrow> SCIP \<Rightarrow> string \<Rightarrow> paramval \<Rightarrow> failure + SCIP" where
  "setParamIfFree found subscip pname v =
     (if found \<and> \<not> SCIPisParamFixed subscip pname then SCIPsetParam subscip pname v
      else Inr subscip)"

text \<open>
  The objective cutoff of \<^verbatim>\<open>setupSubScip\<close>: the value handed to \<^verbatim>\<open>SCIPsetObjlimit\<close> when the
  upper bound of the outer instance is finite.
\<close>

definition cutoffOfSubScip :: "SCIP \<Rightarrow> 'r SCIP_HeurData \<Rightarrow> real" where
  "cutoffOfSubScip scip heurdata =
     (let upperbound = SCIPgetUpperbound scip - SCIPsumepsilon scip;
          cutoff =
            (if \<not> SCIPisInfinity scip (- 1 * SCIPgetLowerbound scip)
             then (1 - minimprove heurdata) * SCIPgetUpperbound scip
                    + minimprove heurdata * SCIPgetLowerbound scip
             else if SCIPgetUpperbound scip \<ge> 0
             then (1 - minimprove heurdata) * SCIPgetUpperbound scip
             else (1 + minimprove heurdata) * SCIPgetUpperbound scip)
      in min upperbound cutoff)"

text \<open>
  \<^verbatim>\<open>setupSubScip\<close>, statement by statement. The file defines \<^verbatim>\<open>SCIP_DEBUG\<close>, so the
  verbosity level is set to 0 and then to 5.
\<close>

definition setupSubScip ::
  "SCIP \<Rightarrow> SCIP \<Rightarrow> SolveLimits \<Rightarrow> 'r SCIP_HEUR \<Rightarrow> failure + SCIP" where
  "setupSubScip scip subscip solvelimits heur =
     (let heurdata = SCIPheurGetData heur
      in SCIP_CALL (SCIPsetParam subscip ''misc/catchctrlc'' (BoolParam False)) (\<lambda>s1.
         SCIP_CALL (SCIPsetParam s1 ''display/verblevel'' (IntParam 0)) (\<lambda>s2.
         SCIP_CALL (SCIPsetParam s2 ''display/verblevel'' (IntParam 5)) (\<lambda>s3.
         SCIP_CALL (SCIPsetParam s3 ''timing/statistictiming'' (BoolParam False)) (\<lambda>s4.
         SCIP_CALL (SCIPsetParam s4 ''limits/bestsol'' (IntParam (nsolslim heurdata))) (\<lambda>s5.
         let s6 = s5\<lparr>subscipsoff := True\<rparr>;
             s7 = s6\<lparr>separating := SCIP_PARAMSETTING_OFF\<rparr>;
             s8 = s7\<lparr>presolving := SCIP_PARAMSETTING_FAST\<rparr>
         in
         SCIP_CALL (setParamIfFree (''estimate'' \<in> set (nodesels s8)) s8
                      ''nodeselection/estimate/stdpriority'' (IntParam (INT_MAX div 4))) (\<lambda>s9.
         SCIP_CALL (setParamIfFree (''inference'' \<in> set (branchrules s9)) s9
                      ''branching/inference/priority'' (IntParam (INT_MAX div 4))) (\<lambda>s10.
         SCIP_CALL (setParamIfFree True s10 ''conflict/enable'' (BoolParam True)) (\<lambda>s11.
         SCIP_CALL (setParamIfFree True s11 ''conflict/maxstoresize'' (IntParam 100)) (\<lambda>s12.
         SCIP_CALL (SCIPsetParam s12 ''lp/checkdualfeas'' (BoolParam False)) (\<lambda>s13.
         SCIP_CALL (setParamIfFree (''quadratic'' \<in> set (conshdlrs s13)) s13
                      ''constraints/quadratic/enfolplimit'' (IntParam 10)) (\<lambda>s14.
         let s15 = (if \<not> SCIPisInfinity scip (SCIPgetUpperbound scip)
                    then SCIPsetObjlimit s14 (cutoffOfSubScip scip heurdata)
                    else s14)
         in setLimits s15 solvelimits))))))))))))"

subsection \<open>The library behind the execution callback\<close>

text \<open>
  What \<^verbatim>\<open>heurExecLns\<close> and the event handler call in the library and cannot be read off
  the instance is a parameter of the model: the machine's arithmetic on \<^verbatim>\<open>SCIP_Real\<close>
  that \<^verbatim>\<open>determineLimits\<close> uses, the generator's draws, the creation and the
  copy of the sub-SCIP (the copy returns the sub-SCIP, the map from the variables of the
  source to those of the copy, and its success flag), the transformation and the solve of
  the sub-SCIP, and the submission of a solution to the source instance (which returns the
  source instance and whether the solution was stored). The solve is given the event
  handler that the file includes and catches, and calls it with the source instance and
  the sub-SCIP on every event it raises.
\<close>

datatype SCIP_EVENTTYPE =
    SCIP_EVENTTYPE_BESTSOLFOUND
  | SCIP_EVENTTYPE_LPSOLVED
  | SCIP_EVENTTYPE_NODESOLVED

type_synonym eventexec = "SCIP_EVENTTYPE \<Rightarrow> SCIP \<times> SCIP \<Rightarrow> failure + (SCIP \<times> SCIP)"

record 'r LIBRARY =
  libmachine :: MACHINE
  librandom :: "'r RANDOM"
  SCIPcreate :: "failure + SCIP"
  SCIPcopyLargeNeighborhoodSearch ::
    "SCIP \<Rightarrow> SCIP \<Rightarrow> string \<Rightarrow> SCIP_VAR list \<Rightarrow> real list \<Rightarrow> int
       \<Rightarrow> failure + (SCIP \<times> (SCIP_VAR \<rightharpoonup> SCIP_VAR) \<times> bool)"
  SCIPtransformProb :: "SCIP \<Rightarrow> failure + SCIP"
  SCIPsolve :: "eventexec \<Rightarrow> SCIP \<times> SCIP \<Rightarrow> failure + (SCIP \<times> SCIP)"
  SCIPtrySolFree :: "SCIP \<Rightarrow> SCIP_SOL \<Rightarrow> failure + (SCIP \<times> bool)"

record 'r SCIP_EventData =
  subvars :: "SCIP_VAR option list"
  eventheur :: "'r SCIP_HEUR"
  eventnodelimit :: int
  eventlplimfac :: real

text \<open>
  \<^verbatim>\<open>SCIPgetSolVals\<close> reads the solution at the first \<open>nvars\<close> entries of an array of
  variables, none of which may be \<^verbatim>\<open>NULL\<close>; \<^verbatim>\<open>SCIPcreateSol\<close> makes the zero solution;
  \<^verbatim>\<open>SCIPsetSolVals\<close> stores \<open>nvars\<close> values into a solution.
\<close>

definition SCIPgetSolVals ::
  "SCIP \<Rightarrow> SCIP_SOL option \<Rightarrow> int \<Rightarrow> SCIP_VAR option list \<Rightarrow> failure + real list" where
  "SCIPgetSolVals scip sol n xs =
     (if 0 \<le> n \<and> nat n \<le> length xs \<and> None \<notin> set (take (nat n) xs)
      then Inr (map (\<lambda>x. SCIPgetSolVal scip sol (the x)) (take (nat n) xs))
      else Inl OutOfRange)"

definition SCIPcreateSol :: SCIP_SOL where
  "SCIPcreateSol = \<lparr>SCIPsolGetOrigin = SCIP_SOLORIGIN_ZERO, solvals = (\<lambda>x. 0)\<rparr>"

definition SCIPsetSolVals :: "SCIP_SOL \<Rightarrow> int \<Rightarrow> SCIP_VAR list \<Rightarrow> real list \<Rightarrow> SCIP_SOL" where
  "SCIPsetSolVals sol n xs vals =
     sol\<lparr>solvals := fold (\<lambda>(x, v) f. f(x := v)) (zip (take (nat n) xs) vals) (solvals sol)\<rparr>"

text \<open>
  \<^verbatim>\<open>transferSolution\<close>: the state it changes is the source instance; the flag that
  \<^verbatim>\<open>SCIPtrySolFree\<close> stores in the local \<open>success\<close> is not read.
\<close>

definition transferSolution ::
  "'r LIBRARY \<Rightarrow> SCIP \<Rightarrow> 'r SCIP_EventData \<Rightarrow> SCIP \<Rightarrow> failure + SCIP" where
  "transferSolution L subscip eventdata sourcescip =
     (let subsol = SCIPgetBestSol subscip;
          nvars = SCIPgetNVars sourcescip
      in SCIP_CALL (SCIPgetSolVals subscip subsol nvars (subvars eventdata)) (\<lambda>subsolvals.
         let newsol = SCIPsetSolVals SCIPcreateSol nvars (vars sourcescip) subsolvals
         in SCIP_CALL (SCIPtrySolFree L sourcescip newsol) (\<lambda>(sourcescip1, stored).
            Inr sourcescip1)))"

text \<open>\<^verbatim>\<open>eventExecLns\<close>, on the pair of the source instance and the sub-SCIP.\<close>

definition eventExecLns :: "'r LIBRARY \<Rightarrow> 'r SCIP_EventData \<Rightarrow> eventexec" where
  "eventExecLns L eventdata ev both =
     (case both of (sourcescip, subscip) \<Rightarrow>
        (case ev of
           SCIP_EVENTTYPE_BESTSOLFOUND \<Rightarrow>
             SCIP_CALL (transferSolution L subscip eventdata sourcescip)
               (\<lambda>sourcescip1. Inr (sourcescip1, subscip))
         | SCIP_EVENTTYPE_LPSOLVED \<Rightarrow>
             (if real_of_int (SCIPgetNLPs subscip)
                   > eventlplimfac eventdata * real_of_int (eventnodelimit eventdata)
              then Inr (sourcescip, SCIPinterruptSolve subscip)
              else Inr (sourcescip, subscip))
         | SCIP_EVENTTYPE_NODESOLVED \<Rightarrow> Inr (sourcescip, subscip)))"

subsection \<open>The execution callback\<close>

definition epsNChoicesLns :: "'r SCIP_HeurData \<Rightarrow> int" where
  "epsNChoicesLns heurdata = nneighborhoods heurdata"

text \<open>\<^verbatim>\<open>epsRewardLns\<close> is called for \<open>0 \<le> i < nneighborhoods\<close> only.\<close>

definition epsRewardLns :: "'r SCIP_HeurData \<Rightarrow> int \<Rightarrow> real" where
  "epsRewardLns heurdata i =
     (let neighborhood = neighborhoods heurdata ! nat i;
          numerator = real_of_int (nrunsbestsol (stats neighborhood));
          denominator = max 1 (real_of_int (nruns (stats neighborhood) * DEFAULT_BESTSOLWEIGHT))
      in numerator / denominator)"

datatype SCIP_RESULT =
    SCIP_DIDNOTRUN
  | SCIP_DELAYED
  | SCIP_DIDNOTFIND
  | SCIP_FEASIBLE
  | SCIP_INFEASIBLE
  | SCIP_UNBOUNDED
  | SCIP_CUTOFF
  | SCIP_FOUNDSOL
  | SCIP_SUCCESS

text \<open>
  The body of the \<^verbatim>\<open>do { ... } while( FALSE )\<close> block of \<^verbatim>\<open>heurExecLns\<close> after a successful
  fixing: from \<^verbatim>\<open>*result = SCIP_DIDNOTFIND\<close> to \<^verbatim>\<open>SCIPfree\<close>. It returns the source
  instance, the neighborhood with its statistics and the nodes of the sub-SCIP. A failure
  of \<^verbatim>\<open>SCIPsolve\<close> aborts (\<^verbatim>\<open>SCIP_CALL_ABORT\<close>).
\<close>

definition runSubScip ::
  "'r LIBRARY \<Rightarrow> SCIP \<Rightarrow> 'r SCIP_HEUR \<Rightarrow> SolveLimits \<Rightarrow> 'r Nh \<Rightarrow> fixbuf
     \<Rightarrow> failure + (SCIP \<times> 'r Nh \<times> int)" where
  "runSubScip L scip heur solvelimits neighborhood0 buf =
     (let heurdata = SCIPheurGetData heur;
          neighborhood1 = neighborhood0\<lparr>stats := (stats neighborhood0)
              \<lparr>totalnfixings := totalnfixings (stats neighborhood0) + nfixings buf\<rparr>\<rparr>;
          neighborhood2 = initNeighborhoodStatsRun scip neighborhood1
      in SCIP_CALL (SCIPcreate L) (\<lambda>subscip0.
         SCIP_CALL (SCIPcopyLargeNeighborhoodSearch L scip subscip0 (name neighborhood2)
                      (varbuf buf) (valbuf buf) (nfixings buf)) (\<lambda>(subscip1, varmapf, copied).
         let subvars1 = map varmapf (vars scip)
         in SCIP_CALL (setupSubScip scip subscip1 solvelimits heur) (\<lambda>subscip2.
            let eventdata = \<lparr>subvars = subvars1, eventheur = heur,
                             eventnodelimit = nodelimit solvelimits,
                             eventlplimfac = lplimfac heurdata\<rparr>
            in SCIP_CALL (SCIPtransformProb L subscip2) (\<lambda>subscip3.
               (case SCIPsolve L (eventExecLns L eventdata) (scip, subscip3) of
                  Inl e \<Rightarrow> Inl Aborted
                | Inr (scip1, subscip4) \<Rightarrow>
                    Inr (scip1, updateNeighborhoodStats scip1 neighborhood2 subscip4,
                         SCIPgetNNodes subscip4)))))))"

text \<open>
  \<^verbatim>\<open>heurExecLns\<close>. The result is \<open>*result\<close>, the source instance and the heuristic. The
  selector pointer must not be \<^verbatim>\<open>NULL\<close> and the selected index must be inside the array of
  neighborhoods. The buffers are allocated with \<open>nvars\<close> entries; their first content is
  not read and stands as zeros. The array \<open>vars\<close> of the callback is the instance's own.
\<close>

definition heurExecLns ::
  "'r LIBRARY \<Rightarrow> SCIP \<Rightarrow> 'r SCIP_HEUR \<Rightarrow> failure + (SCIP_RESULT \<times> SCIP \<times> 'r SCIP_HEUR)" where
  "heurExecLns L scip heur =
     (let heurdata = SCIPheurGetData heur
      in SCIP_CALL (determineLimits (libmachine L) scip heur True) (\<lambda>(solvelimits, run).
         if \<not> run then Inr (SCIP_DELAYED, scip, heur)
         else
           (case epsgreedynh heurdata of
              None \<Rightarrow> Inl OutOfRange
            | Some epsgreedy \<Rightarrow>
                (let nvars = SCIPgetNVars scip;
                     (neighborhoodidx, epsgreedy1) =
                        epsGreedySelect (librandom L) (epsNChoicesLns heurdata)
                          (epsRewardLns heurdata) epsgreedy;
                     heurdata1 = heurdata\<lparr>epsgreedynh := Some epsgreedy1\<rparr>
                 in if 0 \<le> neighborhoodidx \<and> nat neighborhoodidx < length (neighborhoods heurdata1)
                    then
                      SCIP_CALL
                        (neighborhoodFixVariables scip
                           (neighborhoods heurdata1 ! nat neighborhoodidx)
                           (replicate (nat nvars) 0) (replicate (nat nvars) 0))
                        (\<lambda>(scip1, neighborhood1, buf).
                           if \<not> success buf
                           then Inr (SCIP_DIDNOTRUN, scip1,
                                     heur\<lparr>SCIPheurGetData := heurdata1
                                       \<lparr>neighborhoods := (neighborhoods heurdata1)
                                          [nat neighborhoodidx := neighborhood1]\<rparr>\<rparr>)
                           else
                             SCIP_CALL (runSubScip L scip1 heur solvelimits neighborhood1 buf)
                               (\<lambda>(scip2, neighborhood2, subnodes).
                                  Inr (SCIP_DIDNOTFIND, scip2,
                                       heur\<lparr>SCIPheurGetData := heurdata1
                                         \<lparr>neighborhoods := (neighborhoods heurdata1)
                                            [nat neighborhoodidx := neighborhood2],
                                          heurusednodes := heurusednodes heurdata1 + subnodes\<rparr>\<rparr>)))
                    else Inl OutOfRange))))"

subsection \<open>Concrete instances\<close>

text \<open>
  A machine with doubles of 53 bits of precision, rounding to nearest, ties to even (no
  overflow and no subnormal numbers): \<open>binaryExponent x\<close> is the \<open>e\<close> with
  \<open>2 ^ e \<le> x < 2 ^ (e + 1)\<close> for a positive \<open>x\<close>, \<open>ulpOf x\<close> the distance \<open>2 ^ (e - 52)\<close> of
  two doubles at \<open>x\<close>, and \<open>roundDouble x\<close> the double nearest to \<open>x\<close>.
\<close>

definition roundHalfEven :: "real \<Rightarrow> int" where
  "roundHalfEven q =
     (if q - real_of_int \<lfloor>q\<rfloor> < 1 / 2 then \<lfloor>q\<rfloor>
      else if q - real_of_int \<lfloor>q\<rfloor> > 1 / 2 then \<lfloor>q\<rfloor> + 1
      else if even \<lfloor>q\<rfloor> then \<lfloor>q\<rfloor> else \<lfloor>q\<rfloor> + 1)"

definition binaryExponent :: "real \<Rightarrow> int" where
  "binaryExponent x =
     (if 1 \<le> x then int (floorlog 2 (nat \<lfloor>x\<rfloor>)) - 1
      else - int (floorlog 2 (nat (\<lceil>1 / x\<rceil> - 1))))"

definition ulpOf :: "real \<Rightarrow> real" where
  "ulpOf x =
     (if binaryExponent x \<ge> 52 then 2 ^ nat (binaryExponent x - 52)
      else 1 / 2 ^ nat (52 - binaryExponent x))"

definition roundDouble :: "real \<Rightarrow> real" where
  "roundDouble x =
     (if x = 0 then 0
      else sgn x * real_of_int (roundHalfEven (\<bar>x\<bar> / ulpOf \<bar>x\<bar>)) * ulpOf \<bar>x\<bar>)"

definition exampleMachine :: MACHINE where
  "exampleMachine =
     \<lparr>double_mul = (\<lambda>x y. roundDouble (x * y)),
      double_sub = (\<lambda>x y. roundDouble (x - y)),
      double_div = (\<lambda>x y. roundDouble (x / y)),
      double_of_longint = (\<lambda>n. roundDouble (real_of_int n))\<rparr>"

text \<open>
  A generator that plays back a list of numbers of the unit interval: a real draw scales
  the next number into the bounds, an integer draw scales it and stays inside the bounds.
\<close>

definition listRandom :: "real list RANDOM" where
  "listRandom =
     \<lparr>SCIPrandomGetReal =
        (\<lambda>g lo hi. case g of [] \<Rightarrow> (lo, []) | u # us \<Rightarrow> (lo + (hi - lo) * u, us)),
      SCIPrandomGetInt =
        (\<lambda>g lo hi. case g of
             [] \<Rightarrow> (lo, [])
           | u # us \<Rightarrow> (max lo (min hi (lo + \<lfloor>real_of_int (hi - lo + 1) * u\<rfloor>)), us))\<rparr>"

text \<open>
  An outer instance with four binary variables, an optimal LP whose solution is one half
  everywhere, and an incumbent that is one everywhere.
\<close>

definition exampleSol :: SCIP_SOL where
  "exampleSol = \<lparr>SCIPsolGetOrigin = SCIP_SOLORIGIN_ZERO, solvals = (\<lambda>x. 1)\<rparr>"

definition exampleScip :: SCIP where
  "exampleScip =
     \<lparr>vars = [0, 1, 2, 3], nbinvars = 4, nintvars = 0,
      SCIPhasCurrentNodeLP = True, SCIPgetLPSolstat = SCIP_LPSOLSTAT_OPTIMAL,
      lpsolvals = (\<lambda>x. 1 / 2), SCIPgetBestSol = Some exampleSol,
      SCIPgetNSolsFound = 1, SCIPgetNBestSolsFound = 1,
      SCIPgetUpperbound = 10, SCIPgetLowerbound = 2,
      SCIPgetSolvingTime = 5, SCIPgetMemUsed = 1048576, SCIPgetMemExternEstim = 1048576,
      SCIPgetNNodes = 1000, SCIPgetNLPs = 1200, SCIPgetNLPIterations = 30000,
      SCIPisInfinity = (\<lambda>v. v \<ge> 10 ^ 20), SCIPisIntegral = (\<lambda>v. v = real_of_int \<lfloor>v\<rfloor>),
      SCIPisEQ = (\<lambda>a b. a = b), SCIPsumepsilon = 1 / 10 ^ 6,
      params = map_of [(''limits/time'', RealParam 3600), (''limits/memory'', RealParam 2048)],
      fixedparams = [], nodesels = [], branchrules = [], conshdlrs = [],
      subscipsoff = False, separating = SCIP_PARAMSETTING_DEFAULT,
      presolving = SCIP_PARAMSETTING_DEFAULT, objlimit = None, interrupted = False\<rparr>"

definition exampleStats :: NH_Stats where
  "exampleStats =
     \<lparr>usednodes = 0, lpiterations = 0, totalgapclosed = 0, nruns = 0, nrunsbestsol = 0,
      nsolsfound = 0, nbestsolsfound = 0, presolrounds = 0, totalnbinfixings = 0,
      totalnintfixings = 0, totalnimplintfixings = 0, totalncontfixings = 0,
      totalnfixings = 0\<rparr>"

text \<open>A neighborhood with the reset fixing rate and a given variable fixing callback.\<close>

definition exampleNh :: "real list DECL_VARFIXINGS option \<Rightarrow> real list Nh" where
  "exampleNh cb =
     \<lparr>name = ''nh'',
      fixingrate = \<lparr>minfixingrate = 0, targetfixingrate = 1 / 4, maxfixingrate = 1 / 2\<rparr>,
      stats = exampleStats, varfixings = cb, changesubscip = None, setupsubscip = None,
      nhinit = None, nhexit = None, active = True,
      data_mutation = Some \<lparr>mutationrng = [3 / 4, 0]\<rparr>\<rparr>"

text \<open>
  The heuristic data with the default parameters of the file, a required improvement of
  one tenth, and a selector whose next real draw is one quarter.
\<close>

definition exampleHeurData :: "real list Nh list \<Rightarrow> real list SCIP_HeurData" where
  "exampleHeurData nhs =
     \<lparr>neighborhoods = nhs, banditalgo = CHR ''e'',
      epsgreedynh = Some \<lparr>eps = 1 / 2, rng = [1 / 4]\<rparr>, exp3 = None, epsgreedyfilter = None,
      nodesoffset = DEFAULT_NODESOFFSET, maxnodes = DEFAULT_MAXNODES,
      minnodes = DEFAULT_MINNODES, heurusednodes = 0, nodesquot = DEFAULT_NODESQUOT,
      minimprove = 1 / 10, lplimfac = LPLIMFAC, nneighborhoods = int (length nhs),
      nsolslim = DEFAULT_NSOLSLIM\<rparr>"

definition exampleHeur :: "real list Nh list \<Rightarrow> int \<Rightarrow> real list SCIP_HEUR" where
  "exampleHeur nhs ncalls = \<lparr>SCIPheurGetData = exampleHeurData nhs, SCIPheurGetNCalls = ncalls\<rparr>"

text \<open>
  A sub-SCIP as \<^verbatim>\<open>SCIPcreate\<close> and the copy leave it: no plugin of the three that
  \<^verbatim>\<open>setupSubScip\<close> looks for, and the parameters that \<^verbatim>\<open>setupSubScip\<close> sets without a test.
\<close>

definition exampleSubScip :: SCIP where
  "exampleSubScip =
     \<lparr>vars = [], nbinvars = 0, nintvars = 0,
      SCIPhasCurrentNodeLP = False, SCIPgetLPSolstat = SCIP_LPSOLSTAT_NOTSOLVED,
      lpsolvals = (\<lambda>x. 0), SCIPgetBestSol = None,
      SCIPgetNSolsFound = 0, SCIPgetNBestSolsFound = 0,
      SCIPgetUpperbound = 10 ^ 20, SCIPgetLowerbound = - (10 ^ 20),
      SCIPgetSolvingTime = 0, SCIPgetMemUsed = 0, SCIPgetMemExternEstim = 0,
      SCIPgetNNodes = 0, SCIPgetNLPs = 0, SCIPgetNLPIterations = 0,
      SCIPisInfinity = (\<lambda>v. v \<ge> 10 ^ 20), SCIPisIntegral = (\<lambda>v. v = real_of_int \<lfloor>v\<rfloor>),
      SCIPisEQ = (\<lambda>a b. a = b), SCIPsumepsilon = 1 / 10 ^ 6,
      params = map_of
        [(''misc/catchctrlc'', BoolParam True), (''display/verblevel'', IntParam 4),
         (''timing/statistictiming'', BoolParam True), (''limits/bestsol'', IntParam (- 1)),
         (''conflict/enable'', BoolParam True), (''conflict/maxstoresize'', IntParam 10000),
         (''lp/checkdualfeas'', BoolParam True), (''limits/nodes'', LongintParam (- 1)),
         (''limits/time'', RealParam (10 ^ 20)), (''limits/memory'', RealParam 8796093022207)],
      fixedparams = [], nodesels = [], branchrules = [], conshdlrs = [],
      subscipsoff = False, separating = SCIP_PARAMSETTING_DEFAULT,
      presolving = SCIP_PARAMSETTING_DEFAULT, objlimit = None, interrupted = False\<rparr>"

text \<open>
  A library whose solve raises one event, the sub-SCIP's first and best solution, and
  returns; the copy keeps the variables under their own names. The flag says whether the
  source instance stores a solution that is submitted to it.
\<close>

definition foundSol :: SCIP_SOL where
  "foundSol = \<lparr>SCIPsolGetOrigin = SCIP_SOLORIGIN_ZERO, solvals = (\<lambda>x. if x = 0 then 0 else 1)\<rparr>"

definition exampleLibrary :: "bool \<Rightarrow> real list LIBRARY" where
  "exampleLibrary accept =
     \<lparr>libmachine = exampleMachine,
      librandom = listRandom,
      SCIPcreate = Inr exampleSubScip,
      SCIPcopyLargeNeighborhoodSearch =
        (\<lambda>src sub nm vb vl nf.
           Inr (sub\<lparr>vars := vars src, nbinvars := nbinvars src, nintvars := nintvars src\<rparr>,
                (\<lambda>x. if x \<in> set (vars src) then Some x else None), True)),
      SCIPtransformProb = Inr,
      SCIPsolve =
        (\<lambda>handler (src, sub).
           handler SCIP_EVENTTYPE_BESTSOLFOUND
             (src, sub\<lparr>SCIPgetBestSol := Some foundSol, SCIPgetNSolsFound := 1,
                        SCIPgetNBestSolsFound := 1, SCIPgetNNodes := 7, SCIPgetNLPs := 9,
                        SCIPgetNLPIterations := 40\<rparr>)),
      SCIPtrySolFree =
        (\<lambda>src sol.
           Inr (if accept
                then src\<lparr>SCIPgetBestSol := Some sol,
                         SCIPgetNSolsFound := SCIPgetNSolsFound src + 1,
                         SCIPgetNBestSolsFound := SCIPgetNBestSolsFound src + 1,
                         SCIPgetUpperbound := 9\<rparr>
                else src, accept))\<rparr>"

text \<open>
  What the properties read off a return of \<^verbatim>\<open>heurExecLns\<close>: the result code, the two
  solution counters of the source instance, and the counters \<open>nsolsfound\<close>,
  \<open>nbestsolsfound\<close> and \<open>nrunsbestsol\<close> of the first neighborhood.
\<close>

definition runSummary ::
  "failure + (SCIP_RESULT \<times> SCIP \<times> real list SCIP_HEUR)
     \<Rightarrow> (SCIP_RESULT \<times> (int \<times> int) \<times> (int \<times> int \<times> int)) option" where
  "runSummary r =
     (case r of
        Inl e \<Rightarrow> None
      | Inr (res, scip1, heur1) \<Rightarrow>
          Some (res,
                (SCIPgetNSolsFound scip1, SCIPgetNBestSolsFound scip1),
                (nsolsfound (stats (neighborhoods (SCIPheurGetData heur1) ! 0)),
                 nbestsolsfound (stats (neighborhoods (SCIPheurGetData heur1) ! 0)),
                 nrunsbestsol (stats (neighborhoods (SCIPheurGetData heur1) ! 0)))))"

definition exampleLimits :: SolveLimits where
  "exampleLimits = \<lparr>nodelimit = 350, memorylimit = 2046, timelimit = 3595\<rparr>"

text \<open>
  The outer instance at a given node count, and a heuristic that has not been called and
  whose node quotient is the double of a given fraction.
\<close>

definition exampleScipAt :: "int \<Rightarrow> SCIP" where
  "exampleScipAt nnodes = exampleScip\<lparr>SCIPgetNNodes := nnodes\<rparr>"

definition exampleHeurQuot :: "real \<Rightarrow> real list SCIP_HEUR" where
  "exampleHeurQuot q =
     \<lparr>SCIPheurGetData = (exampleHeurData [])\<lparr>nodesquot := roundDouble q\<rparr>,
      SCIPheurGetNCalls = 0\<rparr>"

section \<open>Properties\<close>

subsection \<open>Returns of a call\<close>

lemma SCIP_CALL_InrE:
  assumes "SCIP_CALL m f = Inr y"
  obtains x where "m = Inr x" and "f x = Inr y"
  using assms by (cases m) (simp_all add: SCIP_CALL_def)

lemma SCIP_CALL_Inr_iff: "SCIP_CALL m f = Inr y \<longleftrightarrow> (\<exists>x. m = Inr x \<and> f x = Inr y)"
  by (cases m) (simp_all add: SCIP_CALL_def)

subsection \<open>Reset and update of the statistics and of the bandit\<close>

text \<open>
  C6, as the code has it: \<^verbatim>\<open>neighborhoodStatsReset\<close> assigns zero to twelve of the thirteen
  counters and has no assignment to \<open>totalnintfixings\<close>. On a record whose
  \<open>totalnintfixings\<close> is 7 the reset leaves 7 there, and zero everywhere else.
\<close>

theorem neighborhoodStatsReset_keeps_totalnintfixings:
  "neighborhoodStatsReset
     \<lparr>usednodes = 1, lpiterations = 2, totalgapclosed = 3, nruns = 4, nrunsbestsol = 5,
      nsolsfound = 6, nbestsolsfound = 1, presolrounds = 2, totalnbinfixings = 3,
      totalnintfixings = 7, totalnimplintfixings = 4, totalncontfixings = 5,
      totalnfixings = 19\<rparr>
   = \<lparr>usednodes = 0, lpiterations = 0, totalgapclosed = 0, nruns = 0, nrunsbestsol = 0,
      nsolsfound = 0, nbestsolsfound = 0, presolrounds = 0, totalnbinfixings = 0,
      totalnintfixings = 7, totalnimplintfixings = 0, totalncontfixings = 0,
      totalnfixings = 0\<rparr>"
  by (simp add: neighborhoodStatsReset_def)

lemma neighborhoodStatsReset_totalnintfixings:
  "totalnintfixings (neighborhoodStatsReset s) = totalnintfixings s"
  by (simp add: neighborhoodStatsReset_def)

text \<open>
  C9: for an arm index \<open>i\<close> inside the gain array, \<^verbatim>\<open>expThreeUpdate\<close> returns the state it
  was given with \<open>gain\<close> added to \<open>cumulativegain[i]\<close>: the probabilities, the draw count, the
  number of actions, the generator, the seed and every other arm's cumulative gain are
  what they were. No probability is recomputed.
\<close>

theorem expThreeUpdate_frame:
  assumes "0 \<le> i" and "nat i < length (cumulativegain e)"
  shows "\<exists>e'. expThreeUpdate e gain i = Inr e'
           \<and> cumulativegain e' ! nat i = cumulativegain e ! nat i + gain
           \<and> length (cumulativegain e') = length (cumulativegain e)
           \<and> (\<forall>j. j \<noteq> nat i \<longrightarrow> cumulativegain e' ! j = cumulativegain e ! j)
           \<and> probabilities e' = probabilities e
           \<and> ndraws e' = ndraws e
           \<and> nactions e' = nactions e
           \<and> exp3rng e' = exp3rng e
           \<and> initseed e' = initseed e
           \<and> e' = e\<lparr>cumulativegain :=
                        (cumulativegain e)[nat i := cumulativegain e ! nat i + gain]\<rparr>"
  using assms by (simp add: expThreeUpdate_def Let_def)

theorem expThreeUpdate_frame_witness:
  "(0::int) \<le> 1
   \<and> (\<exists>exp3'. expThreeUpdate
         \<lparr>nactions = 3, ndraws = 2, probabilities = [1/3, 1/3, 1/3],
          cumulativegain = [0, 1/2, 0], exp3rng = (), initseed = 113\<rparr> (1/4) 1 = Inr exp3'
        \<and> cumulativegain exp3' = [0, 3/4, 0]
        \<and> probabilities exp3' = [1/3, 1/3, 1/3]
        \<and> ndraws exp3' = 2)"
  using expThreeUpdate_frame [of 1
      "\<lparr>nactions = 3, ndraws = 2, probabilities = [1/3, 1/3, 1/3],
        cumulativegain = [0, 1/2, 0], exp3rng = (), initseed = 113\<rparr>" "1/4"]
  by (simp add: expThreeUpdate_def Let_def)

subsection \<open>The epsilon greedy selection\<close>

lemma epsGreedyLoop_first_max:
  "0 \<le> i \<Longrightarrow> i < j \<Longrightarrow> m = r i
   \<Longrightarrow> (\<forall>k. 0 \<le> k \<and> k < j \<longrightarrow> r k \<le> r i)
   \<Longrightarrow> (\<forall>k. 0 \<le> k \<and> k < i \<longrightarrow> r k < r i)
   \<Longrightarrow> 0 \<le> fst (epsGreedyLoop r n j i m)
       \<and> fst (epsGreedyLoop r n j i m) < max j n
       \<and> snd (epsGreedyLoop r n j i m) = r (fst (epsGreedyLoop r n j i m))
       \<and> (\<forall>k. 0 \<le> k \<and> k < max j n \<longrightarrow> r k \<le> r (fst (epsGreedyLoop r n j i m)))
       \<and> (\<forall>k. 0 \<le> k \<and> k < fst (epsGreedyLoop r n j i m)
              \<longrightarrow> r k < r (fst (epsGreedyLoop r n j i m)))"
proof (induction r n j i m rule: epsGreedyLoop.induct)
  case (1 r n j i m)
  show ?case
  proof (cases "j < n")
    case False
    then have eq: "epsGreedyLoop r n j i m = (i, m)"
      by (simp add: epsGreedyLoop.simps [of r n j i m])
    have mx: "max j n = j" using False by simp
    show ?thesis
      unfolding eq mx using "1.prems" by simp
  next
    case True
    note jn = True
    show ?thesis
    proof (cases "m < r j")
      case True
      have le: "\<forall>k. 0 \<le> k \<and> k < j + 1 \<longrightarrow> r k \<le> r j"
      proof (intro allI impI)
        fix k assume k: "0 \<le> k \<and> k < j + 1"
        show "r k \<le> r j"
        proof (cases "k = j")
          case True then show ?thesis by simp
        next
          case False
          with k have "k < j" by simp
          with k "1.prems" have "r k \<le> r i" by blast
          with True "1.prems" show ?thesis by simp
        qed
      qed
      have lt: "\<forall>k. 0 \<le> k \<and> k < j \<longrightarrow> r k < r j"
      proof (intro allI impI)
        fix k assume k: "0 \<le> k \<and> k < j"
        with "1.prems" have "r k \<le> r i" by blast
        with True "1.prems" show "r k < r j" by simp
      qed
      have j0: "0 \<le> j" using "1.prems" by simp
      have ih: "0 \<le> fst (epsGreedyLoop r n (j + 1) j (r j))
       \<and> fst (epsGreedyLoop r n (j + 1) j (r j)) < max (j + 1) n
       \<and> snd (epsGreedyLoop r n (j + 1) j (r j)) = r (fst (epsGreedyLoop r n (j + 1) j (r j)))
       \<and> (\<forall>k. 0 \<le> k \<and> k < max (j + 1) n \<longrightarrow> r k \<le> r (fst (epsGreedyLoop r n (j + 1) j (r j))))
       \<and> (\<forall>k. 0 \<le> k \<and> k < fst (epsGreedyLoop r n (j + 1) j (r j))
              \<longrightarrow> r k < r (fst (epsGreedyLoop r n (j + 1) j (r j))))"
        using "1.IH"(1) [OF jn True j0 _ refl le lt] by simp
      have eq: "epsGreedyLoop r n j i m = epsGreedyLoop r n (j + 1) j (r j)"
        using jn True by (simp add: epsGreedyLoop.simps [of r n j i m])
      have mx: "max (j + 1) n = max j n" using jn by simp
      show ?thesis using ih unfolding eq mx by simp
    next
      case False
      have le: "\<forall>k. 0 \<le> k \<and> k < j + 1 \<longrightarrow> r k \<le> r i"
      proof (intro allI impI)
        fix k assume k: "0 \<le> k \<and> k < j + 1"
        show "r k \<le> r i"
        proof (cases "k = j")
          case True then show ?thesis using False "1.prems" by simp
        next
          case False
          with k have "k < j" by simp
          with k "1.prems" show ?thesis by blast
        qed
      qed
      have ij: "i < j + 1" using "1.prems" by simp
      have ih: "0 \<le> fst (epsGreedyLoop r n (j + 1) i m)
       \<and> fst (epsGreedyLoop r n (j + 1) i m) < max (j + 1) n
       \<and> snd (epsGreedyLoop r n (j + 1) i m) = r (fst (epsGreedyLoop r n (j + 1) i m))
       \<and> (\<forall>k. 0 \<le> k \<and> k < max (j + 1) n \<longrightarrow> r k \<le> r (fst (epsGreedyLoop r n (j + 1) i m)))
       \<and> (\<forall>k. 0 \<le> k \<and> k < fst (epsGreedyLoop r n (j + 1) i m)
              \<longrightarrow> r k < r (fst (epsGreedyLoop r n (j + 1) i m)))"
        using "1.IH"(2) [OF jn False "1.prems"(1) ij "1.prems"(3) le "1.prems"(5)] by simp
      have eq: "epsGreedyLoop r n j i m = epsGreedyLoop r n (j + 1) i m"
        using jn False by (simp add: epsGreedyLoop.simps [of r n j i m])
      have mx: "max (j + 1) n = max j n" using jn by simp
      show ?thesis using ih unfolding eq mx by simp
    qed
  qed
qed

lemma listRandom_in_range: "randomGetInt_in_range listRandom"
  by (auto simp: randomGetInt_in_range_def listRandom_def split: list.splits)

text \<open>
  C4: \<^verbatim>\<open>epsGreedySelect\<close> on a number of choices that is not negative, with a generator
  whose integer draws respect their bounds. The result is \<open>-1\<close> exactly when there is no
  choice. With choices, a real \<open>u\<close> is drawn from \<open>[0, 1]\<close>. If \<open>u \<le> eps\<close>, the result is an
  arm whose reward no arm exceeds and that every arm of a lower index falls short of (the
  first arm of greatest reward). Otherwise the result is the generator's integer draw from
  \<open>[0, nchoices - 1]\<close>, an arm index. The generator advances by the draws made.
\<close>

theorem epsGreedySelect_spec:
  assumes "0 \<le> nchoices" and "randomGetInt_in_range R"
  shows "(fst (epsGreedySelect R nchoices r eg) = - 1 \<longleftrightarrow> nchoices = 0)
    \<and> (nchoices = 0 \<longrightarrow> epsGreedySelect R nchoices r eg = (- 1, eg))
    \<and> (nchoices \<noteq> 0 \<and> fst (SCIPrandomGetReal R (rng eg) 0 1) \<le> eps eg \<longrightarrow>
          0 \<le> fst (epsGreedySelect R nchoices r eg)
          \<and> fst (epsGreedySelect R nchoices r eg) < nchoices
          \<and> (\<forall>k. 0 \<le> k \<and> k < nchoices \<longrightarrow> r k \<le> r (fst (epsGreedySelect R nchoices r eg)))
          \<and> (\<forall>k. 0 \<le> k \<and> k < fst (epsGreedySelect R nchoices r eg)
                 \<longrightarrow> r k < r (fst (epsGreedySelect R nchoices r eg)))
          \<and> snd (epsGreedySelect R nchoices r eg)
               = eg\<lparr>rng := snd (SCIPrandomGetReal R (rng eg) 0 1)\<rparr>)
    \<and> (nchoices \<noteq> 0 \<and> \<not> fst (SCIPrandomGetReal R (rng eg) 0 1) \<le> eps eg \<longrightarrow>
          epsGreedySelect R nchoices r eg
            = (fst (SCIPrandomGetInt R (snd (SCIPrandomGetReal R (rng eg) 0 1)) 0 (nchoices - 1)),
               eg\<lparr>rng := snd (SCIPrandomGetInt R (snd (SCIPrandomGetReal R (rng eg) 0 1)) 0
                                (nchoices - 1))\<rparr>)
          \<and> 0 \<le> fst (epsGreedySelect R nchoices r eg)
          \<and> fst (epsGreedySelect R nchoices r eg) < nchoices)"
proof -
  have zero: "nchoices = 0 \<Longrightarrow> epsGreedySelect R nchoices r eg = (- 1, eg)"
    by (simp add: epsGreedySelect_def)
  have greedy: "epsGreedySelect R nchoices r eg
        = (fst (epsGreedyLoop r nchoices 1 0 (r 0)),
           eg\<lparr>rng := snd (SCIPrandomGetReal R (rng eg) 0 1)\<rparr>)"
    if "nchoices \<noteq> 0" "fst (SCIPrandomGetReal R (rng eg) 0 1) \<le> eps eg"
    using that by (simp add: epsGreedySelect_def Let_def case_prod_beta)
  have random: "epsGreedySelect R nchoices r eg
        = (fst (SCIPrandomGetInt R (snd (SCIPrandomGetReal R (rng eg) 0 1)) 0 (nchoices - 1)),
           eg\<lparr>rng := snd (SCIPrandomGetInt R (snd (SCIPrandomGetReal R (rng eg) 0 1)) 0
                            (nchoices - 1))\<rparr>)"
    if "nchoices \<noteq> 0" "\<not> fst (SCIPrandomGetReal R (rng eg) 0 1) \<le> eps eg"
    using that by (simp add: epsGreedySelect_def Let_def case_prod_beta)
  have loop: "0 \<le> fst (epsGreedyLoop r nchoices 1 0 (r 0))
       \<and> fst (epsGreedyLoop r nchoices 1 0 (r 0)) < nchoices
       \<and> (\<forall>k. 0 \<le> k \<and> k < nchoices \<longrightarrow> r k \<le> r (fst (epsGreedyLoop r nchoices 1 0 (r 0))))
       \<and> (\<forall>k. 0 \<le> k \<and> k < fst (epsGreedyLoop r nchoices 1 0 (r 0))
              \<longrightarrow> r k < r (fst (epsGreedyLoop r nchoices 1 0 (r 0))))"
    if "nchoices \<noteq> 0"
  proof -
    have n1: "1 \<le> nchoices" using that assms(1) by simp
    have mx: "max 1 nchoices = nchoices" using n1 by simp
    have le0: "\<forall>k::int. 0 \<le> k \<and> k < 1 \<longrightarrow> r k \<le> r 0"
    proof (intro allI impI)
      fix k :: int assume "0 \<le> k \<and> k < 1"
      then have "k = 0" by simp
      then show "r k \<le> r 0" by simp
    qed
    have lt0: "\<forall>k::int. 0 \<le> k \<and> k < 0 \<longrightarrow> r k < r 0" by simp
    show ?thesis
      using epsGreedyLoop_first_max [of 0 1 "r 0" r nchoices, OF _ _ refl le0 lt0]
      unfolding mx by simp
  qed
  have inrange: "0 \<le> fst (SCIPrandomGetInt R g 0 (nchoices - 1))
       \<and> fst (SCIPrandomGetInt R g 0 (nchoices - 1)) < nchoices" if "nchoices \<noteq> 0" for g
  proof -
    have "0 \<le> nchoices - 1" using that assms(1) by simp
    then have "0 \<le> fst (SCIPrandomGetInt R g 0 (nchoices - 1))
       \<and> fst (SCIPrandomGetInt R g 0 (nchoices - 1)) \<le> nchoices - 1"
      using assms(2) unfolding randomGetInt_in_range_def by blast
    then show ?thesis by simp
  qed
  have iff: "fst (epsGreedySelect R nchoices r eg) = - 1 \<longleftrightarrow> nchoices = 0"
  proof (cases "nchoices = 0")
    case True
    then show ?thesis using zero by simp
  next
    case False
    show ?thesis
    proof (cases "fst (SCIPrandomGetReal R (rng eg) 0 1) \<le> eps eg")
      case True
      then show ?thesis using False greedy loop by simp
    next
      case False
      then show ?thesis
        using \<open>nchoices \<noteq> 0\<close> random inrange [of "snd (SCIPrandomGetReal R (rng eg) 0 1)"] by simp
    qed
  qed
  show ?thesis
  proof (intro conjI impI)
    show "fst (epsGreedySelect R nchoices r eg) = - 1 \<longleftrightarrow> nchoices = 0" by (rule iff)
  qed (use zero greedy random loop inrange in \<open>simp_all\<close>)
qed

theorem epsGreedySelect_spec_witness:
  "(0::int) \<le> 3 \<and> randomGetInt_in_range listRandom
   \<and> epsGreedySelect listRandom 3 (\<lambda>j. [1 / 3, 2 / 3, 2 / 3] ! nat j) \<lparr>eps = 1 / 2, rng = [1 / 4, 3 / 4]\<rparr>
       = (1, \<lparr>eps = 1 / 2, rng = [3 / 4]\<rparr>)
   \<and> epsGreedySelect listRandom 3 (\<lambda>j. [1 / 3, 2 / 3, 2 / 3] ! nat j) \<lparr>eps = 1 / 2, rng = [3 / 4, 3 / 4]\<rparr>
       = (2, \<lparr>eps = 1 / 2, rng = []\<rparr>)
   \<and> epsGreedySelect listRandom 0 (\<lambda>j. [1 / 3, 2 / 3, 2 / 3] ! nat j) \<lparr>eps = 1 / 2, rng = [3 / 4, 3 / 4]\<rparr>
       = (- 1, \<lparr>eps = 1 / 2, rng = [3 / 4, 3 / 4]\<rparr>)"
  using epsGreedySelect_spec [of 3 listRandom "\<lambda>j. [1 / 3, 2 / 3, 2 / 3] ! nat j"
      "\<lparr>eps = 1 / 2, rng = [1 / 4, 3 / 4]\<rparr>"] listRandom_in_range
  by (simp add: epsGreedySelect_def listRandom_def epsGreedyLoop.simps)

subsection \<open>The fixing step\<close>

text \<open>
  C1, at a concrete input: the RENS callback on an instance of four binary variables whose
  LP solution is fractional everywhere reports success with no fixing. The target fixing
  rate is one quarter, so the threshold is one fixing. \<^verbatim>\<open>neighborhoodFixVariables\<close>
  returns success with \<open>nfixings = 0\<close>: its last statement can only set a flag that is
  already set.
\<close>

theorem neighborhoodFixVariables_accepts_below_rate:
  "neighborhoodFixVariables exampleScip (exampleNh (Some varFixingsRens)) [0, 0, 0, 0] [0, 0, 0, 0]
   = Inr (exampleScip, exampleNh (Some varFixingsRens),
          \<lparr>varbuf = [0, 0, 0, 0], valbuf = [0, 0, 0, 0], nfixings = 0, success = True\<rparr>)"
  by (simp add: neighborhoodFixVariables_def exampleNh_def exampleScip_def varFixingsRens_def
      SCIP_CALL_def varFixingsRensLoop.simps SCIPgetSolVal_def SCIPgetNVars_def)

text \<open>
  In general: whatever a callback returns with \<^verbatim>\<open>SCIP_OKAY\<close> is what
  \<^verbatim>\<open>neighborhoodFixVariables\<close> returns; the comparison with the target fixing rate changes
  nothing.
\<close>

lemma neighborhoodFixVariables_callback:
  assumes "varfixings neighborhood = Some cb"
    and "cb scip (fixingrate neighborhood) (data_mutation neighborhood)
           \<lparr>varbuf = vb0, valbuf = vl0, nfixings = 0, success = False\<rparr> = Inr (scip1, mdata1, buf1)"
  shows "neighborhoodFixVariables scip neighborhood vb0 vl0
           = Inr (scip1, neighborhood\<lparr>data_mutation := mdata1\<rparr>, buf1)"
  using assms by (simp add: neighborhoodFixVariables_def SCIP_CALL_def Let_def)

text \<open>The RENS and the RINS callback return the instance and the data they were given.\<close>

lemma varFixingsRens_instance:
  assumes "varFixingsRens scip rate mdata buf = Inr (scip1, mdata1, buf1)"
  shows "scip1 = scip \<and> mdata1 = mdata"
  using assms
  by (auto simp: varFixingsRens_def SCIP_CALL_Inr_iff split: if_splits)

lemma varFixingsRins_instance:
  assumes "varFixingsRins scip rate mdata buf = Inr (scip1, mdata1, buf1)"
  shows "scip1 = scip \<and> mdata1 = mdata"
  using assms
  by (auto simp: varFixingsRins_def SCIP_CALL_Inr_iff split: if_splits option.splits)

text \<open>
  C7, at a concrete input: the mutation callback on the same instance, with a generator
  whose first integer draw from \<open>[0, 3]\<close> is 3. The variable array of the instance is
  \<open>[0, 1, 2, 3]\<close> before the fixing step and \<open>[3, 1, 2, 0]\<close> after it.
\<close>

theorem neighborhoodFixVariables_mutation_permutes_vars:
  "neighborhoodFixVariables exampleScip (exampleNh (Some (varFixingsMutation listRandom)))
     [0, 0, 0, 0] [0, 0, 0, 0]
   = Inr (exampleScip\<lparr>vars := [3, 1, 2, 0]\<rparr>,
          (exampleNh (Some (varFixingsMutation listRandom)))
            \<lparr>data_mutation := Some \<lparr>mutationrng = []\<rparr>\<rparr>,
          \<lparr>varbuf = [3, 1, 0, 0], valbuf = [1, 1, 0, 0], nfixings = 2, success = False\<rparr>)"
  by (simp add: neighborhoodFixVariables_def exampleNh_def exampleScip_def varFixingsMutation_def
      SCIP_CALL_def varFixingsMutationLoop.simps SCIPgetSolVal_def SCIPgetNVars_def
      real_to_int_cast_def listRandom_def swapPointers_def storeFixing_def exampleSol_def Let_def)

text \<open>
  C10: a neighborhood without a variable fixing callback. \<^verbatim>\<open>neighborhoodFixVariables\<close>
  returns \<^verbatim>\<open>SCIP_OKAY\<close> with success and no fixing, whatever the instance; the instance, the
  neighborhood and the two buffers are what they were.
\<close>

theorem neighborhoodFixVariables_no_callback:
  assumes "varfixings neighborhood = None"
  shows "neighborhoodFixVariables scip neighborhood vb0 vl0
           = Inr (scip, neighborhood,
                  \<lparr>varbuf = vb0, valbuf = vl0, nfixings = 0, success = True\<rparr>)"
  using assms by (simp add: neighborhoodFixVariables_def SCIP_CALL_def Let_def)

theorem neighborhoodFixVariables_no_callback_witness:
  "varfixings (exampleNh None) = None
   \<and> neighborhoodFixVariables exampleScip (exampleNh None) [0, 0, 0, 0] [0, 0, 0, 0]
       = Inr (exampleScip, exampleNh None,
              \<lparr>varbuf = [0, 0, 0, 0], valbuf = [0, 0, 0, 0], nfixings = 0, success = True\<rparr>)"
proof -
  have h: "varfixings (exampleNh None) = None" by (simp add: exampleNh_def)
  show ?thesis
    using h neighborhoodFixVariables_no_callback [OF h, of exampleScip "[0, 0, 0, 0]" "[0, 0, 0, 0]"]
    by simp
qed

subsection \<open>Limits and the set-up of the sub-SCIP\<close>

text \<open>The example machine keeps the sign.\<close>

lemma roundHalfEven_nonneg: "0 \<le> q \<Longrightarrow> 0 \<le> roundHalfEven q"
  by (auto simp: roundHalfEven_def)

lemma ulpOf_pos: "0 < ulpOf x"
  by (simp add: ulpOf_def)

lemma roundDouble_nonneg: "0 \<le> x \<Longrightarrow> 0 \<le> roundDouble x"
  using roundHalfEven_nonneg [of "\<bar>x\<bar> / ulpOf \<bar>x\<bar>"] ulpOf_pos [of "\<bar>x\<bar>"]
  by (auto simp: roundDouble_def sgn_if)

lemma exampleMachine_keeps_sign: "machine_keeps_sign exampleMachine"
  by (simp add: machine_keeps_sign_def exampleMachine_def roundDouble_nonneg)

text \<open>
  C2: \<^verbatim>\<open>determineLimits\<close> on an instance that has the two limits as real parameters, with
  the node quotient and the node count not negative (the quotient is declared in
  \<open>[0, 1]\<close>), on a machine whose rounding keeps the sign, and with every \<^verbatim>\<open>SCIP_Longint\<close>
  of the computation inside 64 bits. It returns \<^verbatim>\<open>SCIP_OKAY\<close>; the node limit is
  \<open>floor(nodesquot * nnodes) + nodesoffset - usednodes - 100 * ncalls\<close>, the product being
  the double that the machine computes; the time and memory limits are what remains of the
  instance's limits, as the machine computes it (an infinite limit stays as it is); and
  the flag is false if the remaining time is at most zero, or the remaining memory is at
  most twice the external estimate (in megabytes), or the node limit is below \<open>minnodes\<close>,
  and is the flag passed in otherwise.
\<close>

theorem determineLimits_spec:
  assumes "params scip ''limits/time'' = Some (RealParam tlim)"
    and "params scip ''limits/memory'' = Some (RealParam mlim)"
    and "machine_keeps_sign M"
    and "0 \<le> nodesquot (SCIPheurGetData heur)"
    and "0 \<le> SCIPgetNNodes scip"
    and "inLongint \<lfloor>double_mul M (nodesquot (SCIPheurGetData heur))
                      (double_of_longint M (SCIPgetNNodes scip))\<rfloor>"
    and "inLongint (\<lfloor>double_mul M (nodesquot (SCIPheurGetData heur))
                      (double_of_longint M (SCIPgetNNodes scip))\<rfloor>
                    + nodesoffset (SCIPheurGetData heur))"
    and "inLongint (\<lfloor>double_mul M (nodesquot (SCIPheurGetData heur))
                      (double_of_longint M (SCIPgetNNodes scip))\<rfloor>
                    + nodesoffset (SCIPheurGetData heur) - heurusednodes (SCIPheurGetData heur))"
    and "inLongint (100 * SCIPheurGetNCalls heur)"
    and "inLongint (\<lfloor>double_mul M (nodesquot (SCIPheurGetData heur))
                      (double_of_longint M (SCIPgetNNodes scip))\<rfloor>
                    + nodesoffset (SCIPheurGetData heur) - heurusednodes (SCIPheurGetData heur)
                    - 100 * SCIPheurGetNCalls heur)"
  shows "\<exists>sl run. determineLimits M scip heur runagain = Inr (sl, run)
     \<and> nodelimit sl
         = \<lfloor>double_mul M (nodesquot (SCIPheurGetData heur))
              (double_of_longint M (SCIPgetNNodes scip))\<rfloor>
             + nodesoffset (SCIPheurGetData heur) - heurusednodes (SCIPheurGetData heur)
             - 100 * SCIPheurGetNCalls heur
     \<and> timelimit sl
         = (if SCIPisInfinity scip tlim then tlim
            else double_sub M tlim (SCIPgetSolvingTime scip))
     \<and> memorylimit sl
         = (if SCIPisInfinity scip mlim then mlim
            else double_sub M
                   (double_sub M mlim
                      (double_div M (double_of_longint M (SCIPgetMemUsed scip)) 1048576))
                   (double_div M (double_of_longint M (SCIPgetMemExternEstim scip)) 1048576))
     \<and> run = (if timelimit sl \<le> 0
                  \<or> memorylimit sl
                       \<le> double_div M
                            (double_mul M 2 (double_of_longint M (SCIPgetMemExternEstim scip)))
                            1048576
                  \<or> nodelimit sl < minnodes (SCIPheurGetData heur)
               then False else runagain)"
proof -
  have "0 \<le> double_of_longint M (SCIPgetNNodes scip)"
    using assms(3,5) by (simp add: machine_keeps_sign_def)
  then have "0 \<le> double_mul M (nodesquot (SCIPheurGetData heur))
                     (double_of_longint M (SCIPgetNNodes scip))"
    using assms(3,4) by (simp add: machine_keeps_sign_def)
  then have cast: "real_to_int_cast (double_mul M (nodesquot (SCIPheurGetData heur))
                     (double_of_longint M (SCIPgetNNodes scip)))
      = \<lfloor>double_mul M (nodesquot (SCIPheurGetData heur))
           (double_of_longint M (SCIPgetNNodes scip))\<rfloor>"
    by (simp add: real_to_int_cast_def)
  show ?thesis
    using assms(1,2) assms(6-10) cast
    by (simp add: determineLimits_def SCIP_CALL_def SCIPgetRealParam_def longint_def Let_def)
qed

text \<open>
  Returns on the example machine. The double of 0.29 times 100 is the double below 29 and
  the node limit is \<open>28 + 500\<close>; the double of 0.7 times 10 is 7 and the node limit is
  \<open>7 + 500\<close>; 0.05 times 1000 is 50 and, after two calls, the node limit is
  \<open>50 + 500 - 200\<close>.
\<close>

lemmas roundDouble_eval =
  roundDouble_def ulpOf_def binaryExponent_def roundHalfEven_def compute_floorlog

lemma exampleProduct_029:
  "double_mul exampleMachine (nodesquot (SCIPheurGetData (exampleHeurQuot (29 / 100))))
     (double_of_longint exampleMachine (SCIPgetNNodes (exampleScipAt 100))) = 29 - 1 / 2 ^ 48"
  by (simp add: exampleMachine_def exampleHeurQuot_def exampleScipAt_def roundDouble_eval)

lemma exampleLimits_029:
  "determineLimits exampleMachine (exampleScipAt 100) (exampleHeurQuot (29 / 100)) True
     = Inr (\<lparr>nodelimit = 528, memorylimit = 2046, timelimit = 3595\<rparr>, True)"
  by (simp add: determineLimits_def exampleMachine_def exampleHeurQuot_def exampleScipAt_def
      exampleScip_def exampleHeurData_def SCIP_CALL_def SCIPgetRealParam_def longint_def inLongint_def
      real_to_int_cast_def Let_def DEFAULT_NODESOFFSET_def DEFAULT_MINNODES_def roundDouble_eval)

lemma exampleLimits_07:
  "determineLimits exampleMachine (exampleScipAt 10) (exampleHeurQuot (7 / 10)) True
     = Inr (\<lparr>nodelimit = 507, memorylimit = 2046, timelimit = 3595\<rparr>, True)"
  by (simp add: determineLimits_def exampleMachine_def exampleHeurQuot_def exampleScipAt_def
      exampleScip_def exampleHeurData_def SCIP_CALL_def SCIPgetRealParam_def longint_def inLongint_def
      real_to_int_cast_def Let_def DEFAULT_NODESOFFSET_def DEFAULT_MINNODES_def roundDouble_eval)

lemma exampleLimits_run:
  "determineLimits exampleMachine exampleScip (exampleHeur nhs 2) True = Inr (exampleLimits, True)"
  by (simp add: determineLimits_def exampleMachine_def exampleHeur_def exampleLimits_def
      exampleScip_def exampleHeurData_def SCIP_CALL_def SCIPgetRealParam_def longint_def inLongint_def
      real_to_int_cast_def Let_def DEFAULT_NODESOFFSET_def DEFAULT_MINNODES_def DEFAULT_NODESQUOT_def
      roundDouble_eval)

lemma libmachine_example: "libmachine (exampleLibrary b) = exampleMachine"
  by (simp add: exampleLibrary_def)

theorem determineLimits_spec_witness:
  "params (exampleScipAt 100) ''limits/time'' = Some (RealParam 3600)
   \<and> params (exampleScipAt 100) ''limits/memory'' = Some (RealParam 2048)
   \<and> machine_keeps_sign exampleMachine
   \<and> 0 \<le> nodesquot (SCIPheurGetData (exampleHeurQuot (29 / 100)))
   \<and> 0 \<le> SCIPgetNNodes (exampleScipAt 100)
   \<and> inLongint 528
   \<and> minnodes (SCIPheurGetData (exampleHeurQuot (29 / 100))) = 10
   \<and> determineLimits exampleMachine (exampleScipAt 100) (exampleHeurQuot (29 / 100)) True
       = Inr (\<lparr>nodelimit = 528, memorylimit = 2046, timelimit = 3595\<rparr>, True)
   \<and> determineLimits exampleMachine (exampleScipAt 10) (exampleHeurQuot (7 / 10)) True
       = Inr (\<lparr>nodelimit = 507, memorylimit = 2046, timelimit = 3595\<rparr>, True)"
proof -
  have h1: "params (exampleScipAt 100) ''limits/time'' = Some (RealParam 3600)"
    by (simp add: exampleScipAt_def exampleScip_def)
  have h2: "params (exampleScipAt 100) ''limits/memory'' = Some (RealParam 2048)"
    by (simp add: exampleScipAt_def exampleScip_def)
  have h4: "0 \<le> nodesquot (SCIPheurGetData (exampleHeurQuot (29 / 100)))"
    by (simp add: exampleHeurQuot_def roundDouble_nonneg)
  have h5: "0 \<le> SCIPgetNNodes (exampleScipAt 100)"
    by (simp add: exampleScipAt_def)
  have fl: "\<lfloor>(29::real) - 1 / 2 ^ 48\<rfloor> = 28"
    by (simp add: floor_eq_iff)
  have off: "nodesoffset (SCIPheurGetData (exampleHeurQuot (29 / 100))) = 500"
    "heurusednodes (SCIPheurGetData (exampleHeurQuot (29 / 100))) = 0"
    "SCIPheurGetNCalls (exampleHeurQuot (29 / 100)) = 0"
    by (simp_all add: exampleHeurQuot_def exampleHeurData_def DEFAULT_NODESOFFSET_def)
  have mn: "minnodes (SCIPheurGetData (exampleHeurQuot (29 / 100))) = 10"
    by (simp add: exampleHeurQuot_def exampleHeurData_def DEFAULT_MINNODES_def)
  have r1: "inLongint \<lfloor>double_mul exampleMachine
        (nodesquot (SCIPheurGetData (exampleHeurQuot (29 / 100))))
        (double_of_longint exampleMachine (SCIPgetNNodes (exampleScipAt 100)))\<rfloor>"
    by (simp add: exampleProduct_029 fl inLongint_def)
  have r2: "inLongint (\<lfloor>double_mul exampleMachine
        (nodesquot (SCIPheurGetData (exampleHeurQuot (29 / 100))))
        (double_of_longint exampleMachine (SCIPgetNNodes (exampleScipAt 100)))\<rfloor>
      + nodesoffset (SCIPheurGetData (exampleHeurQuot (29 / 100))))"
    by (simp add: exampleProduct_029 fl off inLongint_def)
  have r3: "inLongint (\<lfloor>double_mul exampleMachine
        (nodesquot (SCIPheurGetData (exampleHeurQuot (29 / 100))))
        (double_of_longint exampleMachine (SCIPgetNNodes (exampleScipAt 100)))\<rfloor>
      + nodesoffset (SCIPheurGetData (exampleHeurQuot (29 / 100)))
      - heurusednodes (SCIPheurGetData (exampleHeurQuot (29 / 100))))"
    by (simp add: exampleProduct_029 fl off inLongint_def)
  have r4: "inLongint (100 * SCIPheurGetNCalls (exampleHeurQuot (29 / 100)))"
    by (simp add: off inLongint_def)
  have r5: "inLongint (\<lfloor>double_mul exampleMachine
        (nodesquot (SCIPheurGetData (exampleHeurQuot (29 / 100))))
        (double_of_longint exampleMachine (SCIPgetNNodes (exampleScipAt 100)))\<rfloor>
      + nodesoffset (SCIPheurGetData (exampleHeurQuot (29 / 100)))
      - heurusednodes (SCIPheurGetData (exampleHeurQuot (29 / 100)))
      - 100 * SCIPheurGetNCalls (exampleHeurQuot (29 / 100)))"
    by (simp add: exampleProduct_029 fl off inLongint_def)
  have r: "inLongint 528"
    by (simp add: inLongint_def)
  note spec = determineLimits_spec [OF h1 h2 exampleMachine_keeps_sign h4 h5 r1 r2 r3 r4 r5,
      of True]
  from spec h1 h2 exampleMachine_keeps_sign h4 h5 r mn exampleLimits_029 exampleLimits_07
  show ?thesis by blast
qed

lemma SCIPsetParam_objlimit: "SCIPsetParam s n v = Inr s' \<Longrightarrow> objlimit s' = objlimit s"
  by (auto simp: SCIPsetParam_def split: option.splits)

lemma setParamIfFree_objlimit: "setParamIfFree b s n v = Inr s' \<Longrightarrow> objlimit s' = objlimit s"
  by (auto simp: setParamIfFree_def dest: SCIPsetParam_objlimit split: if_splits)

lemma setLimits_objlimit: "setLimits s sl = Inr s' \<Longrightarrow> objlimit s' = objlimit s"
  unfolding setLimits_def
  by (elim SCIP_CALL_InrE) (auto dest!: SCIPsetParam_objlimit)

lemma setupSubScip_objlimit:
  assumes "setupSubScip scip subscip solvelimits heur = Inr subscip'"
  shows "objlimit subscip'
           = (if \<not> SCIPisInfinity scip (SCIPgetUpperbound scip)
              then Some (cutoffOfSubScip scip (SCIPheurGetData heur))
              else objlimit subscip)"
  using assms unfolding setupSubScip_def Let_def
  apply (elim SCIP_CALL_InrE)
  apply (drule setLimits_objlimit)
  apply (auto dest!: SCIPsetParam_objlimit setParamIfFree_objlimit simp: SCIPsetObjlimit_def)
  done

text \<open>
  C3: when \<^verbatim>\<open>setupSubScip\<close> returns \<^verbatim>\<open>SCIP_OKAY\<close> and the upper bound \<open>U\<close> of the outer
  instance is finite, the objective limit of the sub-SCIP is \<open>min (U - sumepsilon) c\<close>,
  where \<open>c = (1 - minimprove) * U + minimprove * L\<close> if the lower bound \<open>L\<close> is finite,
  \<open>c = (1 - minimprove) * U\<close> if it is not and \<open>U \<ge> 0\<close>, and \<open>c = (1 + minimprove) * U\<close> if it
  is not and \<open>U < 0\<close>. For \<open>U = 10\<close>, \<open>L = 2\<close>, \<open>minimprove = 0.1\<close> and a tolerance of at most
  0.8 the limit is 9.2.
\<close>

theorem setupSubScip_cutoff:
  assumes "setupSubScip scip subscip solvelimits heur = Inr subscip'"
    and "\<not> SCIPisInfinity scip (SCIPgetUpperbound scip)"
  shows "objlimit subscip'
           = Some (min (SCIPgetUpperbound scip - SCIPsumepsilon scip)
                (if \<not> SCIPisInfinity scip (- SCIPgetLowerbound scip)
                 then (1 - minimprove (SCIPheurGetData heur)) * SCIPgetUpperbound scip
                        + minimprove (SCIPheurGetData heur) * SCIPgetLowerbound scip
                 else if SCIPgetUpperbound scip \<ge> 0
                 then (1 - minimprove (SCIPheurGetData heur)) * SCIPgetUpperbound scip
                 else (1 + minimprove (SCIPheurGetData heur)) * SCIPgetUpperbound scip))
         \<and> (SCIPgetUpperbound scip = 10 \<and> SCIPgetLowerbound scip = 2
              \<and> minimprove (SCIPheurGetData heur) = 1 / 10
              \<and> \<not> SCIPisInfinity scip (- SCIPgetLowerbound scip)
              \<and> SCIPsumepsilon scip \<le> 4 / 5
            \<longrightarrow> objlimit subscip' = Some (46 / 5))"
  using setupSubScip_objlimit [OF assms(1)] assms(2)
  by (auto simp: cutoffOfSubScip_def Let_def)

lemma exampleSetup_returns: "\<not> isl (setupSubScip exampleScip exampleSubScip exampleLimits (exampleHeur [] 2))"
  by code_simp

theorem setupSubScip_cutoff_witness:
  "\<not> isl (setupSubScip exampleScip exampleSubScip exampleLimits (exampleHeur [] 2))
   \<and> \<not> SCIPisInfinity exampleScip (SCIPgetUpperbound exampleScip)
   \<and> objlimit (projr (setupSubScip exampleScip exampleSubScip exampleLimits (exampleHeur [] 2)))
       = Some (46 / 5)"
proof -
  have ret: "setupSubScip exampleScip exampleSubScip exampleLimits (exampleHeur [] 2)
      = Inr (projr (setupSubScip exampleScip exampleSubScip exampleLimits (exampleHeur [] 2)))"
    using exampleSetup_returns by simp
  have fin: "\<not> SCIPisInfinity exampleScip (SCIPgetUpperbound exampleScip)"
    by (simp add: exampleScip_def)
  from setupSubScip_cutoff [OF ret fin] exampleSetup_returns fin show ?thesis
    by (simp add: exampleScip_def exampleHeur_def exampleHeurData_def)
qed

subsection \<open>The statistics of a run and the result of the execution callback\<close>

text \<open>
  Two runs of \<^verbatim>\<open>heurExecLns\<close> on the concrete instance, evaluated: the limits first, by
  the return of \<^verbatim>\<open>determineLimits\<close> above, then the rest.
\<close>

lemma exampleRun_stored:
  "runSummary (heurExecLns (exampleLibrary True) exampleScip
       (exampleHeur [exampleNh (Some varFixingsRens)] 2))
     = Some (SCIP_DIDNOTFIND, (2, 2), (1, 1, 3))"
  by (simp only: heurExecLns_def libmachine_example exampleLimits_run) code_simp

lemma exampleRun_rejected:
  "runSummary (heurExecLns (exampleLibrary False) exampleScip
       (exampleHeur [exampleNh (Some varFixingsRens)] 2))
     = Some (SCIP_DIDNOTFIND, (1, 1), (0, 0, 3))"
  by (simp only: heurExecLns_def libmachine_example exampleLimits_run) code_simp

text \<open>
  C5, as the code has it: \<^verbatim>\<open>initNeighborhoodStatsRun\<close> on the outer instance before the run
  and \<^verbatim>\<open>updateNeighborhoodStats\<close> on the outer instance after it change six counters and
  nothing else. The LP iterations and the nodes of the sub-SCIP are added, \<open>nruns\<close> goes up
  by one, \<open>nsolsfound\<close> and \<open>nbestsolsfound\<close> go up by the difference of the outer
  instance's counters over the run, and \<open>nrunsbestsol\<close> goes up by 3 if the sub-SCIP's own
  counter of best solutions is positive, else by 1 if the sub-SCIP's own counter of
  solutions is positive, else by 0.
\<close>

theorem updateNeighborhoodStats_spec:
  "stats (updateNeighborhoodStats scip' (initNeighborhoodStatsRun scip neighborhood) subscip)
     = (stats neighborhood)
         \<lparr>lpiterations := lpiterations (stats neighborhood) + SCIPgetNLPIterations subscip,
          usednodes := usednodes (stats neighborhood) + SCIPgetNNodes subscip,
          nruns := nruns (stats neighborhood) + 1,
          nrunsbestsol := nrunsbestsol (stats neighborhood)
             + (if SCIPgetNBestSolsFound subscip > 0 then 3
                else if SCIPgetNSolsFound subscip > 0 then 1 else 0),
          nsolsfound := nsolsfound (stats neighborhood)
             + (SCIPgetNSolsFound scip' - SCIPgetNSolsFound scip),
          nbestsolsfound := nbestsolsfound (stats neighborhood)
             + (SCIPgetNBestSolsFound scip' - SCIPgetNBestSolsFound scip)\<rparr>"
  by (simp add: updateNeighborhoodStats_def initNeighborhoodStatsRun_def DEFAULT_BESTSOLWEIGHT_def)

text \<open>
  C5 as stated fails on a run whose only solution the outer instance does not store: the
  outer instance's counters of solutions and of best solutions are 1 and 1 before and after
  the run, \<open>nsolsfound\<close> and \<open>nbestsolsfound\<close> of the neighborhood stay 0, no new best
  solution of the outer solve was found, and \<open>nrunsbestsol\<close> goes from 0 to 3.
\<close>

theorem updateNeighborhoodStats_rejected_counterexample:
  "SCIPgetNSolsFound exampleScip = 1 \<and> SCIPgetNBestSolsFound exampleScip = 1
   \<and> nrunsbestsol (stats (exampleNh (Some varFixingsRens))) = 0
   \<and> runSummary (heurExecLns (exampleLibrary False) exampleScip
         (exampleHeur [exampleNh (Some varFixingsRens)] 2))
       = Some (SCIP_DIDNOTFIND, (1, 1), (0, 0, 3))"
  using exampleRun_rejected by (simp add: exampleScip_def exampleNh_def exampleStats_def)

text \<open>
  C8, as the code has it: a return of \<^verbatim>\<open>heurExecLns\<close> with \<^verbatim>\<open>SCIP_OKAY\<close> carries one of
  the three results \<open>DELAYED\<close>, \<open>DIDNOTRUN\<close>, \<open>DIDNOTFIND\<close>. It is \<open>DELAYED\<close> exactly when
  \<^verbatim>\<open>determineLimits\<close> clears the flag (and then nothing has changed); otherwise a
  neighborhood is selected and its fixing step run, and the result is \<open>DIDNOTRUN\<close> exactly
  when the fixing step reports no success, and \<open>DIDNOTFIND\<close> exactly when it reports
  success, in which case the sub-SCIP has been run and the outer instance returned is the
  one the run left. No return carries \<open>FOUNDSOL\<close>.
\<close>

theorem heurExecLns_result:
  assumes "heurExecLns L scip heur = Inr (res, scip', heur')"
  shows "res \<in> {SCIP_DELAYED, SCIP_DIDNOTRUN, SCIP_DIDNOTFIND}
    \<and> (\<exists>sl run. determineLimits (libmachine L) scip heur True = Inr (sl, run)
         \<and> (res = SCIP_DELAYED \<longleftrightarrow> \<not> run)
         \<and> (\<not> run \<longrightarrow> scip' = scip \<and> heur' = heur)
         \<and> (run \<longrightarrow> (\<exists>eg idx eg1 scip1 nh1 buf.
               epsgreedynh (SCIPheurGetData heur) = Some eg
             \<and> epsGreedySelect (librandom L) (epsNChoicesLns (SCIPheurGetData heur))
                  (epsRewardLns (SCIPheurGetData heur)) eg = (idx, eg1)
             \<and> 0 \<le> idx \<and> nat idx < length (neighborhoods (SCIPheurGetData heur))
             \<and> neighborhoodFixVariables scip (neighborhoods (SCIPheurGetData heur) ! nat idx)
                  (replicate (nat (SCIPgetNVars scip)) 0) (replicate (nat (SCIPgetNVars scip)) 0)
                  = Inr (scip1, nh1, buf)
             \<and> (res = SCIP_DIDNOTRUN \<longleftrightarrow> \<not> success buf)
             \<and> (\<not> success buf \<longrightarrow> scip' = scip1)
             \<and> (res = SCIP_DIDNOTFIND \<longleftrightarrow> success buf)
             \<and> (success buf \<longrightarrow>
                  (\<exists>nh2 n. runSubScip L scip1 heur sl nh1 buf = Inr (scip', nh2, n))))))"
proof -
  from assms obtain sl run where
    det: "determineLimits (libmachine L) scip heur True = Inr (sl, run)"
    and rest: "(if \<not> run then Inr (SCIP_DELAYED, scip, heur)
         else
           (case epsgreedynh (SCIPheurGetData heur) of
              None \<Rightarrow> Inl OutOfRange
            | Some epsgreedy \<Rightarrow>
                (let nvars = SCIPgetNVars scip;
                     (neighborhoodidx, epsgreedy1) =
                        epsGreedySelect (librandom L) (epsNChoicesLns (SCIPheurGetData heur))
                          (epsRewardLns (SCIPheurGetData heur)) epsgreedy;
                     heurdata1 = (SCIPheurGetData heur)\<lparr>epsgreedynh := Some epsgreedy1\<rparr>
                 in if 0 \<le> neighborhoodidx \<and> nat neighborhoodidx < length (neighborhoods heurdata1)
                    then
                      SCIP_CALL
                        (neighborhoodFixVariables scip
                           (neighborhoods heurdata1 ! nat neighborhoodidx)
                           (replicate (nat nvars) 0) (replicate (nat nvars) 0))
                        (\<lambda>(scip1, neighborhood1, buf).
                           if \<not> success buf
                           then Inr (SCIP_DIDNOTRUN, scip1,
                                     heur\<lparr>SCIPheurGetData := heurdata1
                                       \<lparr>neighborhoods := (neighborhoods heurdata1)
                                          [nat neighborhoodidx := neighborhood1]\<rparr>\<rparr>)
                           else
                             SCIP_CALL (runSubScip L scip1 heur sl neighborhood1 buf)
                               (\<lambda>(scip2, neighborhood2, subnodes).
                                  Inr (SCIP_DIDNOTFIND, scip2,
                                       heur\<lparr>SCIPheurGetData := heurdata1
                                         \<lparr>neighborhoods := (neighborhoods heurdata1)
                                            [nat neighborhoodidx := neighborhood2],
                                          heurusednodes := heurusednodes heurdata1 + subnodes\<rparr>\<rparr>)))
                    else Inl OutOfRange))) = Inr (res, scip', heur')"
    unfolding heurExecLns_def Let_def by (elim SCIP_CALL_InrE) auto
  show ?thesis
  proof (cases run)
    case False
    from rest False have r: "res = SCIP_DELAYED" "scip' = scip" "heur' = heur" by simp_all
    show ?thesis
    proof (intro conjI exI [of _ sl] exI [of _ run] impI)
      show "determineLimits (libmachine L) scip heur True = Inr (sl, run)" by (rule det)
    qed (use r False in simp_all)
  next
    case True
    with rest obtain eg where eg: "epsgreedynh (SCIPheurGetData heur) = Some eg"
      by (cases "epsgreedynh (SCIPheurGetData heur)") simp_all
    obtain idx eg1 where sel: "epsGreedySelect (librandom L) (epsNChoicesLns (SCIPheurGetData heur))
                  (epsRewardLns (SCIPheurGetData heur)) eg = (idx, eg1)"
      by (cases "epsGreedySelect (librandom L) (epsNChoicesLns (SCIPheurGetData heur))
                  (epsRewardLns (SCIPheurGetData heur)) eg") auto
    from rest True eg sel have rng: "0 \<le> idx \<and> nat idx < length (neighborhoods (SCIPheurGetData heur))"
      by (simp add: Let_def split: if_splits)
    from rest True eg sel rng have
      "\<exists>scip1 nh1 buf.
          neighborhoodFixVariables scip (neighborhoods (SCIPheurGetData heur) ! nat idx)
                  (replicate (nat (SCIPgetNVars scip)) 0) (replicate (nat (SCIPgetNVars scip)) 0)
                  = Inr (scip1, nh1, buf)
          \<and> (res = SCIP_DIDNOTRUN \<longleftrightarrow> \<not> success buf)
          \<and> (\<not> success buf \<longrightarrow> scip' = scip1)
          \<and> (res = SCIP_DIDNOTFIND \<longleftrightarrow> success buf)
          \<and> (success buf \<longrightarrow>
                  (\<exists>nh2 n. runSubScip L scip1 heur sl nh1 buf = Inr (scip', nh2, n)))"
      by (auto simp: Let_def SCIP_CALL_Inr_iff split: if_splits)
    then obtain scip1 nh1 buf where
      fixed: "neighborhoodFixVariables scip (neighborhoods (SCIPheurGetData heur) ! nat idx)
                  (replicate (nat (SCIPgetNVars scip)) 0) (replicate (nat (SCIPgetNVars scip)) 0)
                  = Inr (scip1, nh1, buf)"
      and tail: "(res = SCIP_DIDNOTRUN \<longleftrightarrow> \<not> success buf)
             \<and> (\<not> success buf \<longrightarrow> scip' = scip1)
             \<and> (res = SCIP_DIDNOTFIND \<longleftrightarrow> success buf)
             \<and> (success buf \<longrightarrow>
                  (\<exists>nh2 n. runSubScip L scip1 heur sl nh1 buf = Inr (scip', nh2, n)))"
      by blast
    have inner: "\<exists>eg idx eg1 scip1 nh1 buf.
               epsgreedynh (SCIPheurGetData heur) = Some eg
             \<and> epsGreedySelect (librandom L) (epsNChoicesLns (SCIPheurGetData heur))
                  (epsRewardLns (SCIPheurGetData heur)) eg = (idx, eg1)
             \<and> 0 \<le> idx \<and> nat idx < length (neighborhoods (SCIPheurGetData heur))
             \<and> neighborhoodFixVariables scip (neighborhoods (SCIPheurGetData heur) ! nat idx)
                  (replicate (nat (SCIPgetNVars scip)) 0) (replicate (nat (SCIPgetNVars scip)) 0)
                  = Inr (scip1, nh1, buf)
             \<and> (res = SCIP_DIDNOTRUN \<longleftrightarrow> \<not> success buf)
             \<and> (\<not> success buf \<longrightarrow> scip' = scip1)
             \<and> (res = SCIP_DIDNOTFIND \<longleftrightarrow> success buf)
             \<and> (success buf \<longrightarrow>
                  (\<exists>nh2 n. runSubScip L scip1 heur sl nh1 buf = Inr (scip', nh2, n)))"
      using eg sel rng fixed tail by blast
    have res: "res = SCIP_DIDNOTRUN \<or> res = SCIP_DIDNOTFIND" using tail by blast
    show ?thesis
    proof (intro conjI exI [of _ sl] exI [of _ run] impI)
      show "determineLimits (libmachine L) scip heur True = Inr (sl, run)" by (rule det)
      show "res \<in> {SCIP_DELAYED, SCIP_DIDNOTRUN, SCIP_DIDNOTFIND}" using res by auto
      show "res = SCIP_DELAYED \<longleftrightarrow> \<not> run" using res True by auto
      show "scip' = scip" if "\<not> run" using that True by simp
      show "heur' = heur" if "\<not> run" using that True by simp
      show "\<exists>eg idx eg1 scip1 nh1 buf.
               epsgreedynh (SCIPheurGetData heur) = Some eg
             \<and> epsGreedySelect (librandom L) (epsNChoicesLns (SCIPheurGetData heur))
                  (epsRewardLns (SCIPheurGetData heur)) eg = (idx, eg1)
             \<and> 0 \<le> idx \<and> nat idx < length (neighborhoods (SCIPheurGetData heur))
             \<and> neighborhoodFixVariables scip (neighborhoods (SCIPheurGetData heur) ! nat idx)
                  (replicate (nat (SCIPgetNVars scip)) 0) (replicate (nat (SCIPgetNVars scip)) 0)
                  = Inr (scip1, nh1, buf)
             \<and> (res = SCIP_DIDNOTRUN \<longleftrightarrow> \<not> success buf)
             \<and> (\<not> success buf \<longrightarrow> scip' = scip1)
             \<and> (res = SCIP_DIDNOTFIND \<longleftrightarrow> success buf)
             \<and> (success buf \<longrightarrow>
                  (\<exists>nh2 n. runSubScip L scip1 heur sl nh1 buf = Inr (scip', nh2, n)))"
        by (rule inner)
    qed
  qed
qed

theorem heurExecLns_result_witness:
  "\<not> isl (heurExecLns (exampleLibrary True) exampleScip
             (exampleHeur [exampleNh (Some varFixingsRens)] 2))
   \<and> fst (projr (heurExecLns (exampleLibrary True) exampleScip
             (exampleHeur [exampleNh (Some varFixingsRens)] 2)))
       \<in> {SCIP_DELAYED, SCIP_DIDNOTRUN, SCIP_DIDNOTFIND}
   \<and> fst (projr (heurExecLns (exampleLibrary True) exampleScip
             (exampleHeur [exampleNh (Some varFixingsRens)] 2))) = SCIP_DIDNOTFIND"
proof -
  have ok: "\<not> isl (heurExecLns (exampleLibrary True) exampleScip
             (exampleHeur [exampleNh (Some varFixingsRens)] 2))"
    using exampleRun_stored by (auto simp: runSummary_def split: sum.splits)
  then have ret: "heurExecLns (exampleLibrary True) exampleScip
             (exampleHeur [exampleNh (Some varFixingsRens)] 2)
      = Inr (fst (projr (heurExecLns (exampleLibrary True) exampleScip
                (exampleHeur [exampleNh (Some varFixingsRens)] 2))),
             fst (snd (projr (heurExecLns (exampleLibrary True) exampleScip
                (exampleHeur [exampleNh (Some varFixingsRens)] 2)))),
             snd (snd (projr (heurExecLns (exampleLibrary True) exampleScip
                (exampleHeur [exampleNh (Some varFixingsRens)] 2)))))"
    by simp
  have res: "fst (projr (heurExecLns (exampleLibrary True) exampleScip
             (exampleHeur [exampleNh (Some varFixingsRens)] 2))) = SCIP_DIDNOTFIND"
    using exampleRun_stored by (auto simp: runSummary_def split: sum.splits)
  from heurExecLns_result [OF ret] ok res show ?thesis by blast
qed

text \<open>The return on a failed budget check, from the side of \<^verbatim>\<open>determineLimits\<close>.\<close>

lemma heurExecLns_delayed:
  assumes "determineLimits (libmachine L) scip heur True = Inr (sl, False)"
  shows "heurExecLns L scip heur = Inr (SCIP_DELAYED, scip, heur)"
  using assms by (simp add: heurExecLns_def SCIP_CALL_def Let_def)

text \<open>
  C8 as stated fails on a run whose solution the outer instance stores: the outer
  instance's counters of solutions and of best solutions go from 1 and 1 to 2 and 2 during
  the run, and the result is \<open>DIDNOTFIND\<close>.
\<close>

theorem heurExecLns_accepted_counterexample:
  "SCIPgetNSolsFound exampleScip = 1 \<and> SCIPgetNBestSolsFound exampleScip = 1
   \<and> runSummary (heurExecLns (exampleLibrary True) exampleScip
         (exampleHeur [exampleNh (Some varFixingsRens)] 2))
       = Some (SCIP_DIDNOTFIND, (2, 2), (1, 1, 3))
   \<and> SCIP_DIDNOTFIND \<noteq> SCIP_FOUNDSOL"
  using exampleRun_stored by (simp add: exampleScip_def)

end
